theory Spec2Isabelle
  imports Complex_Main "HOL-Library.AList"
begin

section \<open>Python values, exceptions and conversions\<close>

text \<open>
  The request handlers of \<^verbatim>\<open>app.py\<close> are embedded as functions from the request and the
  application state (catalog, users, session) to an outcome and the state afterwards.
  An exception is a value. A scalar that arrives in a JSON body, or that is stored in a
  cart line, is an integer, a float or a string. Python floats are idealised as reals:
  rounding, infinities and the overflow of very large integers are outside the model.
\<close>

datatype exn =
    NotFound
  | KeyError string
  | ValueError
  | TypeError
  | UnboundLocalError string
  | OperationalError

datatype pyval = PInt int | PFloat real | PStr string

text \<open>
  \<^verbatim>\<open>str(n)\<close> for an integer: decimal digits, with a minus sign when negative. The
  handlers apply it to identifiers of the database, which are far below the size at
  which the interpreter refuses the conversion.
\<close>

definition digit_char :: "nat \<Rightarrow> char" where
  "digit_char d = char_of (48 + d)"

fun digits_nat :: "nat \<Rightarrow> string" where
  "digits_nat n =
     (if n < 10 then [digit_char n] else digits_nat (n div 10) @ [digit_char (n mod 10)])"

declare digits_nat.simps [simp del]

definition str_int :: "int \<Rightarrow> string" where
  "str_int n = (if n < 0 then CHR ''-'' # digits_nat (nat (- n)) else digits_nat (nat n))"

text \<open>
  \<^verbatim>\<open>int(s)\<close> for a string: surrounding whitespace (space, tab, line feed, vertical tab,
  form feed, carriage return) is stripped, an optional sign follows, then decimal digits,
  where single underscores may separate digits. Anything else is a \<^verbatim>\<open>ValueError\<close>, and
  so is a text with more digits than the interpreter converts (4300 unless configured
  otherwise). Only ASCII texts are modelled: a text with a character beyond ASCII is
  refused here, so every text that the model reads is read by \<^verbatim>\<open>int\<close> as the same number.
\<close>

definition is_digit :: "char \<Rightarrow> bool" where
  "is_digit c = (48 \<le> (of_char c :: nat) \<and> (of_char c :: nat) \<le> 57)"

definition digit_val :: "char \<Rightarrow> nat" where
  "digit_val c = of_char c - 48"

definition is_space :: "char \<Rightarrow> bool" where
  "is_space c = ((of_char c :: nat) \<in> {9, 10, 11, 12, 13, 32})"

definition strip :: "string \<Rightarrow> string" where
  "strip s = rev (dropWhile is_space (rev (dropWhile is_space s)))"

fun digits_val :: "nat \<Rightarrow> string \<Rightarrow> nat option" where
  "digits_val acc [] = Some acc"
| "digits_val acc (c # cs) =
     (if is_digit c then digits_val (10 * acc + digit_val c) cs
      else if c = CHR ''_'' then
        (case cs of
           [] \<Rightarrow> None
         | d # ds \<Rightarrow> if is_digit d then digits_val (10 * acc + digit_val d) ds else None)
      else None)"

definition unsigned_val :: "string \<Rightarrow> nat option" where
  "unsigned_val s =
     (case s of
        [] \<Rightarrow> None
      | c # cs \<Rightarrow> if is_digit c then digits_val (digit_val c) cs else None)"

definition parse_int :: "string \<Rightarrow> int option" where
  "parse_int s =
     (case strip s of
        [] \<Rightarrow> None
      | c # cs \<Rightarrow>
          if c = CHR ''-'' then map_option (\<lambda>n. - int n) (unsigned_val cs)
          else if c = CHR ''+'' then map_option int (unsigned_val cs)
          else map_option int (unsigned_val (c # cs)))"

definition max_str_digits :: nat where
  "max_str_digits = 4300"

definition int_of_str :: "string \<Rightarrow> int option" where
  "int_of_str s =
     (if max_str_digits < length (filter is_digit s) then None else parse_int s)"

text \<open>\<^verbatim>\<open>int(x)\<close> on a value: a float is truncated towards zero, a string is parsed.\<close>

definition py_int :: "pyval \<Rightarrow> exn + int" where
  "py_int v =
     (case v of
        PInt n \<Rightarrow> Inr n
      | PFloat x \<Rightarrow> Inr (if 0 \<le> x then \<lfloor>x\<rfloor> else \<lceil>x\<rceil>)
      | PStr s \<Rightarrow> (case int_of_str s of None \<Rightarrow> Inl ValueError | Some n \<Rightarrow> Inr n))"

text \<open>
  The parts of the platform that the handlers call and that are not code of this
  repository: Python's parsing of a float from text, the password check of the hashing
  library, and the identifier the database gives to a new catalog row.
\<close>

record env =
  float_of_str :: "string \<Rightarrow> real option"
  check_password_hash :: "string \<Rightarrow> string \<Rightarrow> bool"
  next_id :: "int list \<Rightarrow> int"

text \<open>\<^verbatim>\<open>float(x)\<close> on a value.\<close>

definition py_float :: "env \<Rightarrow> pyval \<Rightarrow> exn + real" where
  "py_float E v =
     (case v of
        PInt n \<Rightarrow> Inr (of_int n)
      | PFloat x \<Rightarrow> Inr x
      | PStr s \<Rightarrow> (case float_of_str E s of None \<Rightarrow> Inl ValueError | Some x \<Rightarrow> Inr x))"

text \<open>
  \<^verbatim>\<open>a + b\<close> and \<^verbatim>\<open>a * b\<close>: numbers add and multiply (an integer meets a float as a
  float), strings concatenate, a string is repeated by an integer, and every other pair
  of operands is a \<^verbatim>\<open>TypeError\<close>.
\<close>

fun py_add :: "pyval \<Rightarrow> pyval \<Rightarrow> exn + pyval" where
  "py_add (PInt a) (PInt b) = Inr (PInt (a + b))"
| "py_add (PInt a) (PFloat y) = Inr (PFloat (of_int a + y))"
| "py_add (PFloat x) (PInt b) = Inr (PFloat (x + of_int b))"
| "py_add (PFloat x) (PFloat y) = Inr (PFloat (x + y))"
| "py_add (PStr s) (PStr t) = Inr (PStr (s @ t))"
| "py_add _ _ = Inl TypeError"

fun py_mul :: "pyval \<Rightarrow> pyval \<Rightarrow> exn + pyval" where
  "py_mul (PInt a) (PInt b) = Inr (PInt (a * b))"
| "py_mul (PInt a) (PFloat y) = Inr (PFloat (of_int a * y))"
| "py_mul (PFloat x) (PInt b) = Inr (PFloat (x * of_int b))"
| "py_mul (PFloat x) (PFloat y) = Inr (PFloat (x * y))"
| "py_mul (PStr s) (PInt b) = Inr (PStr (concat (replicate (nat b) s)))"
| "py_mul (PInt a) (PStr t) = Inr (PStr (concat (replicate (nat a) t)))"
| "py_mul _ _ = Inl TypeError"

section \<open>Data model\<close>

text \<open>The rows of \<^verbatim>\<open>models.py\<close> that the handlers read and write.\<close>

record user =
  user_id :: int
  user_name :: string
  user_email :: string
  user_password :: string
  user_role :: string

record product =
  product_id :: int
  product_name :: string
  product_category :: string
  product_price :: real
  product_image :: string
  product_seller_id :: "int option"
  product_description :: string
  product_stock :: int
  product_origin :: string

text \<open>
  A cart line is the dictionary with the five keys that both add handlers build. The
  cart is a dictionary from \<^verbatim>\<open>str(product_id)\<close> to cart lines, kept in insertion order:
  an association list, where \<open>AList.update\<close> replaces the value of a present key in
  place and appends an absent one, and \<open>AList.delete\<close> removes a key.
\<close>

record cart_line =
  line_id :: int
  line_name :: string
  line_price :: real
  line_quantity :: pyval
  line_image :: string

type_synonym cart = "(string \<times> cart_line) list"

text \<open>
  The session holds the principal set by login, the flashed messages, and the cart;
  a key that was never assigned is \<open>None\<close>.
\<close>

record session =
  sess_user :: "int option"
  sess_name :: "string option"
  sess_role :: "string option"
  sess_cart :: "cart option"
  sess_flashes :: "string list"

record state =
  products :: "product list"
  users :: "user list"
  session :: session

section \<open>Responses\<close>

text \<open>
  The \<^verbatim>\<open>error\<close> value of a JSON body is either a literal of the source or
  \<^verbatim>\<open>str(e)\<close> of the exception that was caught.
\<close>

datatype err_text = Literal string | Str_of exn

record cart_item =
  item_id :: int
  item_name :: string
  item_price :: real
  item_quantity :: pyval
  item_subtotal :: pyval
  item_image :: string

record json =
  json_success :: bool
  json_message :: "string option"
  json_error :: "err_text option"
  json_cart_count :: "nat option"
  json_id :: "int option"
  json_items :: "cart_item list option"
  json_total :: "pyval option"

text \<open>
  The object that \<^verbatim>\<open>GET /api/products\<close> builds for a product: the last three keys
  are present only when the handler adds them.
\<close>

record product_json =
  pj_id :: int
  pj_name :: string
  pj_category :: string
  pj_price :: real
  pj_image :: string
  pj_seller_id :: "int option"
  pj_description :: "string option"
  pj_stock :: "int option"
  pj_origin :: "string option"

record login_form =
  form_email :: string
  form_password :: string
  form_valid :: bool

text \<open>
  A response is a JSON object with a \<^verbatim>\<open>success\<close> key, the array of
  \<^verbatim>\<open>GET /api/products\<close>, the object \<^verbatim>\<open>{'error': ...}\<close> of that route, a rendered page
  or a redirect. The number is the status.
\<close>

datatype response =
    Json nat json
  | Json_products nat "product_json list"
  | Json_error nat err_text
  | Render_cart "cart_line list" pyval
  | Render_login login_form
  | Redirect string

text \<open>
  A handler either returns a response or lets an exception escape (\<open>Inl\<close>), which the
  framework answers itself: 404 for \<open>NotFound\<close>, an internal server error for the rest.
\<close>

type_synonym result = "(exn + response) \<times> state"

definition json_ok :: "string \<Rightarrow> json" where
  "json_ok msg =
     \<lparr>json_success = True, json_message = Some msg, json_error = None,
      json_cart_count = None, json_id = None, json_items = None, json_total = None\<rparr>"

definition json_fail :: "err_text \<Rightarrow> json" where
  "json_fail err =
     \<lparr>json_success = False, json_message = None, json_error = Some err,
      json_cart_count = None, json_id = None, json_items = None, json_total = None\<rparr>"

text \<open>
  \<^verbatim>\<open>try: ... except Exception as e: return jsonify({'success': False, 'error': str(e)}), status\<close>.
  When the body raises, nothing it did is kept: every body assigns to the session and
  commits to the database only after its last raising statement.
\<close>

definition try_except :: "nat \<Rightarrow> state \<Rightarrow> exn + response \<times> state \<Rightarrow> result" where
  "try_except status s body =
     (case body of
        Inl e \<Rightarrow> (Inr (Json status (json_fail (Str_of e))), s)
      | Inr (r, s') \<Rightarrow> (Inr r, s'))"

section \<open>Session and catalog access\<close>

definition get_cart :: "state \<Rightarrow> cart" where
  \<comment> \<open>\<^verbatim>\<open>session.get('cart', {})\<close>\<close>
  "get_cart s = (case sess_cart (session s) of None \<Rightarrow> [] | Some c \<Rightarrow> c)"

definition set_cart :: "cart \<Rightarrow> state \<Rightarrow> state" where
  \<comment> \<open>\<^verbatim>\<open>session['cart'] = cart\<close>\<close>
  "set_cart c s = s\<lparr>session := (session s)\<lparr>sess_cart := Some c\<rparr>\<rparr>"

definition flash :: "string \<Rightarrow> state \<Rightarrow> state" where
  "flash msg s = s\<lparr>session := (session s)\<lparr>sess_flashes := sess_flashes (session s) @ [msg]\<rparr>\<rparr>"

definition query_get :: "product list \<Rightarrow> int \<Rightarrow> product option" where
  \<comment> \<open>\<^verbatim>\<open>Product.query.get(i)\<close>\<close>
  "query_get db i = find (\<lambda>p. product_id p = i) db"

definition get_or_404 :: "product list \<Rightarrow> int \<Rightarrow> exn + product" where
  "get_or_404 db i = (case query_get db i of None \<Rightarrow> Inl NotFound | Some p \<Rightarrow> Inr p)"

definition require :: "string \<Rightarrow> 'a option \<Rightarrow> exn + 'a" where
  \<comment> \<open>\<^verbatim>\<open>data[key]\<close> on the JSON object of the request\<close>
  "require key v = (case v of None \<Rightarrow> Inl (KeyError key) | Some x \<Rightarrow> Inr x)"


section \<open>Login\<close>

text \<open>
  \<open>form_valid\<close> is the result of \<^verbatim>\<open>form.validate_on_submit()\<close>, which the forms module
  (not part of the given sources) computes from the submitted fields.
\<close>

definition login :: "env \<Rightarrow> login_form \<Rightarrow> state \<Rightarrow> result" where
  "login E form s =
     (if form_valid form then
        (case (case find (\<lambda>u. user_email u = form_email form) (users s) of
                 None \<Rightarrow> None
               | Some u \<Rightarrow>
                   if check_password_hash E (user_password u) (form_password form)
                   then Some u else None) of
           Some u \<Rightarrow>
             (Inr (Redirect ''home''),
              flash ''Welcome back!''
                (s\<lparr>session := (session s)\<lparr>sess_user := Some (user_id u),
                     sess_name := Some (user_name u), sess_role := Some (user_role u)\<rparr>\<rparr>))
         | None \<Rightarrow> (Inr (Render_login form), flash ''Invalid email or password.'' s))
      else (Inr (Render_login form), s))"

section \<open>The session cart\<close>

text \<open>
  The block that both add handlers contain: a present key has its quantity increased in
  place by \<^verbatim>\<open>+=\<close>, an absent key gets a new line with the snapshot of the product.
\<close>

definition add_line :: "cart \<Rightarrow> int \<Rightarrow> product \<Rightarrow> pyval \<Rightarrow> exn + cart" where
  "add_line c pid p quantity =
     (case map_of c (str_int pid) of
        Some l \<Rightarrow>
          (case py_add (line_quantity l) quantity of
             Inl e \<Rightarrow> Inl e
           | Inr q \<Rightarrow> Inr (AList.update (str_int pid) (l\<lparr>line_quantity := q\<rparr>) c))
      | None \<Rightarrow>
          Inr (AList.update (str_int pid)
                 \<lparr>line_id = product_id p, line_name = product_name p,
                  line_price = product_price p, line_quantity = quantity,
                  line_image = product_image p\<rparr> c))"

text \<open>
  \<^verbatim>\<open>/add_to_cart/<int:product_id>\<close>: the form field \<^verbatim>\<open>quantity\<close> is a text or absent.
  There is no exception handler, so every exception escapes.
\<close>

definition add_to_cart :: "int \<Rightarrow> string option \<Rightarrow> state \<Rightarrow> result" where
  "add_to_cart pid form_quantity s =
     (case py_int (case form_quantity of None \<Rightarrow> PInt 1 | Some t \<Rightarrow> PStr t) of
        Inl e \<Rightarrow> (Inl e, s)
      | Inr quantity \<Rightarrow>
          (case get_or_404 (products s) pid of
             Inl e \<Rightarrow> (Inl e, s)
           | Inr p \<Rightarrow>
               (case add_line (get_cart s) pid p (PInt quantity) of
                  Inl e \<Rightarrow> (Inl e, s)
                | Inr c \<Rightarrow>
                    (Inr (Json 200 ((json_ok (product_name p @ '' added to cart!''))
                                      \<lparr>json_cart_count := Some (length c)\<rparr>)),
                     set_cart c s))))"

text \<open>\<^verbatim>\<open>sum(...)\<close> over a generator: the elements are produced and added from left to right.\<close>

fun py_sum :: "pyval \<Rightarrow> (exn + pyval) list \<Rightarrow> exn + pyval" where
  "py_sum acc [] = Inr acc"
| "py_sum acc (Inl e # xs) = Inl e"
| "py_sum acc (Inr v # xs) = (case py_add acc v of Inl e \<Rightarrow> Inl e | Inr a \<Rightarrow> py_sum a xs)"

definition view_cart :: "state \<Rightarrow> result" where
  "view_cart s =
     (let cart_items = map snd (get_cart s) in
      case py_sum (PInt 0)
             (map (\<lambda>item. py_mul (PFloat (line_price item)) (line_quantity item)) cart_items) of
        Inl e \<Rightarrow> (Inl e, s)
      | Inr t \<Rightarrow> (Inr (Render_cart cart_items t), s))"

text \<open>
  \<^verbatim>\<open>/remove_from_cart/<int:product_id>\<close>: \<^verbatim>\<open>product_name\<close> is assigned only when the key
  is present, and the return statement reads it in both cases.
\<close>

definition remove_from_cart :: "int \<Rightarrow> state \<Rightarrow> result" where
  "remove_from_cart pid s =
     (case map_of (get_cart s) (str_int pid) of
        Some l \<Rightarrow>
          (Inr (Json 200 (json_ok (line_name l @ '' removed from cart!''))),
           set_cart (AList.delete (str_int pid) (get_cart s)) s)
      | None \<Rightarrow> (Inl (UnboundLocalError ''product_name''), s))"

section \<open>The JSON API\<close>




text \<open>
  The body of a request is a JSON object; a key that it does not have is \<open>None\<close>. The
  texts of a product are strings, its price and stock are scalars, and the product
  identifier of a cart request is an integer.
\<close>

record product_payload =
  pp_name :: "string option"
  pp_category :: "string option"
  pp_price :: "pyval option"
  pp_image :: "string option"
  pp_description :: "string option"
  pp_stock :: "pyval option"
  pp_origin :: "string option"

record cart_payload =
  cp_product_id :: "int option"
  cp_quantity :: "pyval option"

text \<open>
  The optional fields of a product payload: \<^verbatim>\<open>description\<close>, \<^verbatim>\<open>stock\<close> (through
  \<^verbatim>\<open>int\<close>) and \<^verbatim>\<open>origin\<close> are written only when the key is present.
\<close>

definition set_optional :: "product_payload \<Rightarrow> product \<Rightarrow> exn + product" where
  "set_optional d p =
     (let p1 = (case pp_description d of None \<Rightarrow> p | Some t \<Rightarrow> p\<lparr>product_description := t\<rparr>) in
      case (case pp_stock d of
              None \<Rightarrow> Inr p1
            | Some v \<Rightarrow>
                (case py_int v of Inl e \<Rightarrow> Inl e | Inr n \<Rightarrow> Inr (p1\<lparr>product_stock := n\<rparr>))) of
        Inl e \<Rightarrow> Inl e
      | Inr p2 \<Rightarrow>
          Inr (case pp_origin d of None \<Rightarrow> p2 | Some t \<Rightarrow> p2\<lparr>product_origin := t\<rparr>))"


text \<open>\<^verbatim>\<open>PUT /api/products/<int:product_id>\<close>\<close>

definition api_update_product :: "env \<Rightarrow> int \<Rightarrow> product_payload \<Rightarrow> state \<Rightarrow> result" where
  "api_update_product E pid d s =
     try_except 400 s
       (case get_or_404 (products s) pid of
          Inl e \<Rightarrow> Inl e
        | Inr p \<Rightarrow>
       (case require ''name'' (pp_name d) of
          Inl e \<Rightarrow> Inl e
        | Inr name \<Rightarrow>
       (case require ''category'' (pp_category d) of
          Inl e \<Rightarrow> Inl e
        | Inr category \<Rightarrow>
       (case require ''price'' (pp_price d) of
          Inl e \<Rightarrow> Inl e
        | Inr v \<Rightarrow>
       (case py_float E v of
          Inl e \<Rightarrow> Inl e
        | Inr price \<Rightarrow>
       (case set_optional d
               (let p1 = p\<lparr>product_name := name, product_category := category,
                           product_price := price\<rparr>
                in case pp_image d of None \<Rightarrow> p1 | Some i \<Rightarrow> p1\<lparr>product_image := i\<rparr>) of
          Inl e \<Rightarrow> Inl e
        | Inr p' \<Rightarrow>
            Inr (Json 200 (json_ok ''Product updated successfully!''),
                 s\<lparr>products :=
                      map (\<lambda>r. if product_id r = pid then p' else r) (products s)\<rparr>)))))))"


text \<open>
  \<^verbatim>\<open>GET /api/cart\<close>: the loop over \<^verbatim>\<open>cart.items()\<close>, with the list of items and the
  total built so far. A line whose product is not found is skipped.
\<close>

fun cart_loop ::
  "product list \<Rightarrow> cart \<Rightarrow> cart_item list \<Rightarrow> pyval \<Rightarrow> exn + cart_item list \<times> pyval" where
  "cart_loop db [] cart_items tot = Inr (cart_items, tot)"
| "cart_loop db ((key, item) # rest) cart_items tot =
     (case int_of_str key of
        None \<Rightarrow> Inl ValueError
      | Some i \<Rightarrow>
          (case query_get db i of
             None \<Rightarrow> cart_loop db rest cart_items tot
           | Some p \<Rightarrow>
               (case py_mul (PFloat (line_price item)) (line_quantity item) of
                  Inl e \<Rightarrow> Inl e
                | Inr subtotal \<Rightarrow>
                    (case py_add tot subtotal of
                       Inl e \<Rightarrow> Inl e
                     | Inr tot' \<Rightarrow>
                         cart_loop db rest
                           (cart_items @
                              [\<lparr>item_id = product_id p, item_name = line_name item,
                                item_price = line_price item,
                                item_quantity = line_quantity item,
                                item_subtotal = subtotal,
                                item_image = line_image item\<rparr>])
                           tot'))))"

definition api_get_cart :: "state \<Rightarrow> result" where
  "api_get_cart s =
     try_except 400 s
       (case cart_loop (products s) (get_cart s) [] (PInt 0) of
          Inl e \<Rightarrow> Inl e
        | Inr (cart_items, tot) \<Rightarrow>
            Inr (Json 200
                   \<lparr>json_success = True, json_message = None, json_error = None,
                    json_cart_count = Some (length (get_cart s)), json_id = None,
                    json_items = Some cart_items, json_total = Some tot\<rparr>,
                 s))"

text \<open>\<^verbatim>\<open>POST /api/cart\<close>: the quantity of the body is used as it arrives.\<close>

definition api_add_to_cart :: "cart_payload \<Rightarrow> state \<Rightarrow> result" where
  "api_add_to_cart d s =
     try_except 400 s
       (case require ''product_id'' (cp_product_id d) of
          Inl e \<Rightarrow> Inl e
        | Inr pid \<Rightarrow>
       (case get_or_404 (products s) pid of
          Inl e \<Rightarrow> Inl e
        | Inr p \<Rightarrow>
       (case add_line (get_cart s) pid p
               (case cp_quantity d of None \<Rightarrow> PInt 1 | Some q \<Rightarrow> q) of
          Inl e \<Rightarrow> Inl e
        | Inr c \<Rightarrow>
            Inr (Json 200 ((json_ok (product_name p @ '' added to cart!''))
                             \<lparr>json_cart_count := Some (length c)\<rparr>),
                 set_cart c s))))"

text \<open>\<^verbatim>\<open>DELETE /api/cart/remove/<int:product_id>\<close>\<close>

definition api_remove_from_cart :: "int \<Rightarrow> state \<Rightarrow> result" where
  "api_remove_from_cart pid s =
     try_except 400 s
       (case map_of (get_cart s) (str_int pid) of
          Some l \<Rightarrow>
            (let c = AList.delete (str_int pid) (get_cart s) in
             Inr (Json 200 ((json_ok (line_name l @ '' removed from cart!''))
                              \<lparr>json_cart_count := Some (length c)\<rparr>),
                  set_cart c s))
        | None \<Rightarrow> Inr (Json 404 (json_fail (Literal ''Product not found in cart'')), s))"

section \<open>An example shop\<close>

text \<open>Two rows of the seed catalog, with the identifiers the empty database gives them.\<close>

definition tomatoes :: product where
  "tomatoes =
     \<lparr>product_id = 1, product_name = ''Organic Tomatoes'', product_category = ''Vegetables'',
      product_price = 3.99,
      product_image = ''https://images.unsplash.com/photo-1546470427-e212d4d25323?w=400'',
      product_seller_id = None,
      product_description =
        ''Fresh organic tomatoes grown without pesticides, perfect for salads and cooking.'',
      product_stock = 50, product_origin = []\<rparr>"

definition apples :: product where
  "apples =
     \<lparr>product_id = 2, product_name = ''Fresh Apples'', product_category = ''Fruits'',
      product_price = 2.49,
      product_image = ''https://images.unsplash.com/photo-1568702846914-96b305d2aaeb?w=400'',
      product_seller_id = None,
      product_description = ''Crisp and juicy red apples, hand-picked from our orchard.'',
      product_stock = 75, product_origin = []\<rparr>"

definition no_session :: session where
  "no_session =
     \<lparr>sess_user = None, sess_name = None, sess_role = None, sess_cart = None,
      sess_flashes = []\<rparr>"

definition alice :: user where
  "alice =
     \<lparr>user_id = 1, user_name = ''Alice'', user_email = ''alice@example.com'',
      user_password = ''hash:secret'', user_role = ''user''\<rparr>"

definition shop :: state where
  "shop = \<lparr>products = [tomatoes, apples], users = [alice], session = no_session\<rparr>"

text \<open>
  A stand-in for the platform: floats are read from integer texts only, a password
  matches the hash that is the password behind a prefix, a new row gets the identifier
  after the largest one.
\<close>

definition plain_env :: env where
  "plain_env =
     \<lparr>float_of_str = (\<lambda>t. map_option of_int (int_of_str t)),
      check_password_hash = (\<lambda>h p. h = ''hash:'' @ p),
      next_id = (\<lambda>ids. fold max ids 0 + 1)\<rparr>"

definition new_price :: product_payload where
  "new_price =
     \<lparr>pp_name = Some ''Organic Tomatoes'', pp_category = Some ''Vegetables'',
      pp_price = Some (PFloat 4.5), pp_image = None, pp_description = None,
      pp_stock = Some (PInt 40), pp_origin = None\<rparr>"

text \<open>
  A session whose cart holds two tomatoes and a shovel, the sixth seed product, which is
  no longer in the catalog of the example.
\<close>

definition shovel :: product where
  "shovel =
     \<lparr>product_id = 6, product_name = ''Garden Shovel'', product_category = ''Farm Tools'',
      product_price = 24.99,
      product_image = ''https://images.unsplash.com/photo-1572984334707-0c0df46957a9?w=400'',
      product_seller_id = None,
      product_description =
        ''Durable steel garden shovel perfect for all your farming needs.'',
      product_stock = 15, product_origin = []\<rparr>"

definition tomato_line :: cart_line where
  "tomato_line =
     \<lparr>line_id = 1, line_name = ''Organic Tomatoes'', line_price = 3.99,
      line_quantity = PInt 2,
      line_image = ''https://images.unsplash.com/photo-1546470427-e212d4d25323?w=400''\<rparr>"

definition shovel_line :: cart_line where
  "shovel_line =
     \<lparr>line_id = 6, line_name = ''Garden Shovel'', line_price = 24.99,
      line_quantity = PInt 1,
      line_image = ''https://images.unsplash.com/photo-1572984334707-0c0df46957a9?w=400''\<rparr>"

definition stale :: state where
  "stale =
     shop\<lparr>session := no_session\<lparr>sess_cart := Some [(''1'', tomato_line), (''6'', shovel_line)]\<rparr>\<rparr>"

text \<open>
  Apples in the cart, the apples at a new name and price, and a session that holds the
  cart of the example with apples added, its keys in another order.
\<close>

definition apple_line :: "int \<Rightarrow> cart_line" where
  "apple_line q =
     \<lparr>line_id = 2, line_name = ''Fresh Apples'', line_price = 2.49,
      line_quantity = PInt q,
      line_image = ''https://images.unsplash.com/photo-1568702846914-96b305d2aaeb?w=400''\<rparr>"

definition dearer_apples :: product where
  "dearer_apples = apples\<lparr>product_name := ''Apples'', product_price := 3\<rparr>"

definition reordered :: state where
  "reordered =
     \<lparr>products = [tomatoes, dearer_apples], users = [alice],
      session = no_session\<lparr>sess_cart :=
        Some [(''2'', apple_line 2), (''6'', shovel_line), (''1'', tomato_line)]\<rparr>\<rparr>"

text \<open>The bodies and items that \<^verbatim>\<open>GET /api/cart\<close> answers with in the example.\<close>

definition tomato_item :: cart_item where
  "tomato_item =
     \<lparr>item_id = 1, item_name = ''Organic Tomatoes'', item_price = 3.99,
      item_quantity = PInt 2, item_subtotal = PFloat 7.98,
      item_image = ''https://images.unsplash.com/photo-1546470427-e212d4d25323?w=400''\<rparr>"

definition shovel_item :: cart_item where
  "shovel_item =
     \<lparr>item_id = 6, item_name = ''Garden Shovel'', item_price = 24.99,
      item_quantity = PInt 1, item_subtotal = PFloat 24.99,
      item_image = ''https://images.unsplash.com/photo-1572984334707-0c0df46957a9?w=400''\<rparr>"

definition cart_body :: "cart_item list \<Rightarrow> pyval \<Rightarrow> nat \<Rightarrow> json" where
  "cart_body its tot n =
     \<lparr>json_success = True, json_message = None, json_error = None,
      json_cart_count = Some n, json_id = None, json_items = Some its,
      json_total = Some tot\<rparr>"

section \<open>Vocabulary of the properties\<close>

text \<open>A success-shaped response: a JSON body with \<^verbatim>\<open>success\<close> true and status 200.\<close>

definition success_shaped :: "exn + response \<Rightarrow> bool" where
  "success_shaped r =
     (case r of Inr (Json st b) \<Rightarrow> st = 200 \<and> json_success b | _ \<Rightarrow> False)"


text \<open>The number that a numeric value stands for; a string counts as 0.\<close>

definition num_val :: "pyval \<Rightarrow> real" where
  "num_val v = (case v of PInt n \<Rightarrow> of_int n | PFloat x \<Rightarrow> x | PStr s \<Rightarrow> 0)"

text \<open>
  A cart line resolves when its key is the text of an identifier that the catalog has.
  Its value is its price times its quantity.
\<close>

definition resolves :: "product list \<Rightarrow> string \<times> cart_line \<Rightarrow> bool" where
  "resolves db kl =
     (case int_of_str (fst kl) of None \<Rightarrow> False | Some i \<Rightarrow> query_get db i \<noteq> None)"

definition line_value :: "string \<times> cart_line \<Rightarrow> real" where
  "line_value kl = line_price (snd kl) * num_val (line_quantity (snd kl))"

text \<open>The item that \<^verbatim>\<open>GET /api/cart\<close> reports for a cart line.\<close>

definition item_of_line :: "cart_item \<Rightarrow> string \<times> cart_line \<Rightarrow> bool" where
  "item_of_line it kl =
     (int_of_str (fst kl) = Some (item_id it) \<and>
      item_name it = line_name (snd kl) \<and>
      item_price it = line_price (snd kl) \<and>
      item_quantity it = line_quantity (snd kl) \<and>
      item_subtotal it = PFloat (line_value kl) \<and>
      item_image it = line_image (snd kl))"

section \<open>Basic facts\<close>

lemma try_except_Inl [simp]:
  "try_except st s (Inl e) = (Inr (Json st (json_fail (Str_of e))), s)"
  by (simp add: try_except_def)

lemma try_except_Inr [simp]: "try_except st s (Inr (r, s')) = (Inr r, s')"
  by (simp add: try_except_def)

lemma get_cart_set_cart [simp]: "get_cart (set_cart c s) = c"
  by (simp add: get_cart_def set_cart_def)

lemma products_set_cart [simp]: "products (set_cart c s) = products s"
  by (simp add: set_cart_def)

lemma get_cart_session: "session s' = session s \<Longrightarrow> get_cart s' = get_cart s"
  by (simp add: get_cart_def)

lemma query_get_None_404 [simp]: "query_get db p = None \<Longrightarrow> get_or_404 db p = Inl NotFound"
  by (simp add: get_or_404_def)

lemma query_get_Some_404 [simp]: "query_get db p = Some x \<Longrightarrow> get_or_404 db p = Inr x"
  by (simp add: get_or_404_def)

lemma update_absent: "map_of c k = None \<Longrightarrow> AList.update k v c = c @ [(k, v)]"
  by (induction c) (auto split: if_splits)

lemma filter_key_absent: "map_of c k = None \<Longrightarrow> filter (\<lambda>kv. fst kv = k) c = []"
  by (induction c) (auto split: if_splits)

text \<open>Facts about the example.\<close>

lemma str_int_1: "str_int 1 = ''1''"
  by code_simp

lemma str_int_7: "str_int 7 = ''7''"
  by code_simp

lemma int_of_str_3: "int_of_str ''3'' = Some 3"
  by code_simp

lemma int_of_str_1: "int_of_str ''1'' = Some 1"
  by code_simp

lemma int_of_str_6: "int_of_str ''6'' = Some 6"
  by code_simp

lemma get_cart_stale: "get_cart stale = [(''1'', tomato_line), (''6'', shovel_line)]"
  by (simp add: stale_def get_cart_def no_session_def)

lemma products_stale: "products stale = [tomatoes, apples]"
  by (simp add: stale_def shop_def)

lemma str_int_2: "str_int 2 = ''2''"
  by code_simp

lemma str_int_6: "str_int 6 = ''6''"
  by code_simp

lemma int_of_str_unit_separator: "int_of_str [CHR 0x1F, CHR ''7''] = None"
  by code_simp

lemma query_get_stale_2: "query_get (products stale) 2 = Some apples"
  by (simp add: products_stale query_get_def tomatoes_def apples_def)

lemma get_cart_reordered:
  "get_cart reordered = [(''2'', apple_line 2), (''6'', shovel_line), (''1'', tomato_line)]"
  by (simp add: reordered_def get_cart_def no_session_def)

lemma get_cart_shop: "get_cart shop = []"
  by (simp add: get_cart_def shop_def no_session_def)

lemma query_get_shop_1: "query_get (products shop) 1 = Some tomatoes"
  by (simp add: query_get_def shop_def tomatoes_def)

lemma query_get_shop_999: "query_get (products shop) 999 = None"
  by (simp add: query_get_def shop_def tomatoes_def apples_def)

section \<open>Identifiers as cart keys\<close>

text \<open>
  The key that the add handlers build with \<^verbatim>\<open>str\<close> is read back by the \<^verbatim>\<open>int\<close> of
  the cart listing as the same identifier, as long as it has no more digits than
  \<^verbatim>\<open>int\<close> converts.
\<close>

lemma of_char_digit_char: "d < 10 \<Longrightarrow> (of_char (digit_char d) :: nat) = 48 + d"
  by (simp add: digit_char_def)

lemma is_digit_digit_char: "d < 10 \<Longrightarrow> is_digit (digit_char d)"
  by (simp add: is_digit_def of_char_digit_char)

lemma digit_val_digit_char: "d < 10 \<Longrightarrow> digit_val (digit_char d) = d"
  by (simp add: digit_val_def of_char_digit_char)

lemma digits_nat_digits: "c \<in> set (digits_nat n) \<Longrightarrow> is_digit c"
proof (induction n rule: digits_nat.induct)
  case (1 n)
  then show ?case
    by (subst (asm) (2) digits_nat.simps) (auto simp: is_digit_digit_char split: if_splits)
qed

lemma digits_nat_not_Nil: "digits_nat n \<noteq> []"
  by (subst digits_nat.simps) simp

lemma digits_val_digits:
  "\<forall>c \<in> set ds. is_digit c \<Longrightarrow>
   digits_val acc ds = Some (foldl (\<lambda>a c. 10 * a + digit_val c) acc ds)"
  by (induction ds arbitrary: acc) auto

lemma foldl_digits_nat: "foldl (\<lambda>a c. 10 * a + digit_val c) 0 (digits_nat n) = n"
proof (induction n rule: digits_nat.induct)
  case (1 n)
  show ?case
  proof (cases "n < 10")
    case True
    then show ?thesis
      by (subst digits_nat.simps) (simp add: digit_val_digit_char)
  next
    case False
    with 1 show ?thesis
      by (subst digits_nat.simps) (simp add: digit_val_digit_char)
  qed
qed

lemma unsigned_val_digits_nat: "unsigned_val (digits_nat n) = Some n"
proof -
  obtain c cs where d: "digits_nat n = c # cs"
    using digits_nat_not_Nil by (cases "digits_nat n") auto
  have all: "\<forall>x \<in> set (c # cs). is_digit x"
    using digits_nat_digits [of _ n] by (simp add: d)
  have "foldl (\<lambda>a c. 10 * a + digit_val c) 0 (c # cs) = n"
    using foldl_digits_nat [of n] by (simp add: d)
  then show ?thesis
    using all digits_val_digits [of cs "digit_val c"] by (simp add: unsigned_val_def d)
qed

lemma is_digit_not_space: "is_digit c \<Longrightarrow> \<not> is_space c"
  by (auto simp: is_digit_def is_space_def)

lemma strip_id:
  assumes "s \<noteq> []" and "\<not> is_space (hd s)" and "\<not> is_space (last s)"
  shows "strip s = s"
proof -
  have "dropWhile is_space s = s"
    using assms by (cases s) auto
  moreover have "dropWhile is_space (rev s) = rev s"
    using assms by (cases "rev s") (auto simp: last_rev [symmetric] hd_rev simp del: last_rev)
  ultimately show ?thesis
    by (simp add: strip_def)
qed

lemma parse_int_str_int: "parse_int (str_int n) = Some n"
proof -
  let ?ds = "digits_nat (nat \<bar>n\<bar>)"
  obtain c cs where d: "?ds = c # cs"
    using digits_nat_not_Nil by (cases ?ds) auto
  have dig: "\<And>x. x \<in> set ?ds \<Longrightarrow> is_digit x"
    by (rule digits_nat_digits)
  have c: "is_digit c"
    using dig by (simp add: d)
  have l: "is_digit (last ?ds)"
    using dig digits_nat_not_Nil last_in_set by blast
  have cm: "c \<noteq> CHR ''-''" and cp: "c \<noteq> CHR ''+''"
    using c by (auto simp: is_digit_def)
  have u: "unsigned_val ?ds = Some (nat \<bar>n\<bar>)"
    by (rule unsigned_val_digits_nat)
  show ?thesis
  proof (cases "n < 0")
    case True
    then have s: "str_int n = CHR ''-'' # ?ds"
      by (simp add: str_int_def)
    have m: "\<not> is_space (CHR ''-'')"
      by (simp add: is_space_def)
    have "\<not> is_space (last ?ds)"
      by (rule is_digit_not_space [OF l])
    then have "strip (CHR ''-'' # ?ds) = CHR ''-'' # ?ds"
      using m digits_nat_not_Nil by (intro strip_id) simp_all
    then show ?thesis
      using u True by (simp add: parse_int_def s)
  next
    case False
    then have s: "str_int n = ?ds"
      by (simp add: str_int_def)
    have "strip ?ds = ?ds"
      using l c d digits_nat_not_Nil by (intro strip_id) (auto simp: is_digit_not_space)
    moreover have "digits_nat (nat n) = c # cs" and "unsigned_val (c # cs) = Some (nat n)"
      using d u False by simp_all
    ultimately show ?thesis
      using False cm cp by (simp add: parse_int_def s)
  qed
qed

lemma int_of_str_str_int:
  assumes "length (str_int n) \<le> max_str_digits"
  shows "int_of_str (str_int n) = Some n"
proof -
  have "length (filter is_digit (str_int n)) \<le> length (str_int n)"
    by (rule length_filter_le)
  with assms have "\<not> max_str_digits < length (filter is_digit (str_int n))"
    by linarith
  then show ?thesis
    by (simp add: int_of_str_def parse_int_str_int)
qed

section \<open>Removing a product that is not in the cart\<close>

text \<open>
  C1, as the code has it. When the key of \<open>p\<close> is not in the cart,
  \<^verbatim>\<open>DELETE /api/cart/remove/p\<close> returns, without raising, the failure body with the
  message \<^verbatim>\<open>Product not found in cart\<close> and status 404, and on both remove routes
  the state, and with it the cart, is afterwards what it was.
\<close>

theorem remove_absent_api:
  assumes "map_of (get_cart s) (str_int p) = None"
  shows "api_remove_from_cart p s =
           (Inr (Json 404 (json_fail (Literal ''Product not found in cart''))), s)
         \<and> snd (remove_from_cart p s) = s"
  using assms by (simp add: api_remove_from_cart_def remove_from_cart_def)

theorem remove_absent_api_witness:
  "map_of (get_cart shop) (str_int 7) = None \<and>
   api_remove_from_cart 7 shop =
     (Inr (Json 404 (json_fail (Literal ''Product not found in cart''))), shop)
   \<and> snd (remove_from_cart 7 shop) = shop"
proof -
  have h: "map_of (get_cart shop) (str_int 7) = None"
    by (simp add: get_cart_shop)
  show ?thesis
    using h remove_absent_api [OF h] by simp
qed

text \<open>
  C1 as stated fails: on the empty cart of the example, removing product 7 through the
  API gives a body with \<^verbatim>\<open>success\<close> false and status 404, and the legacy route raises
  \<^verbatim>\<open>UnboundLocalError\<close>; neither is a success-shaped response.
\<close>

theorem remove_absent_counterexample:
  "map_of (get_cart shop) (str_int 7) = None \<and>
   \<not> success_shaped (fst (api_remove_from_cart 7 shop)) \<and>
   fst (api_remove_from_cart 7 shop) =
     Inr (Json 404 (json_fail (Literal ''Product not found in cart''))) \<and>
   \<not> success_shaped (fst (remove_from_cart 7 shop)) \<and>
   fst (remove_from_cart 7 shop) = Inl (UnboundLocalError ''product_name'')"
  by (simp add: get_cart_shop api_remove_from_cart_def remove_from_cart_def
      success_shaped_def json_fail_def)

section \<open>Adding a product twice\<close>

lemma add_line_absent:
  "map_of c (str_int p) = None \<Longrightarrow>
   add_line c p pr q =
     Inr (c @ [(str_int p,
                \<lparr>line_id = product_id pr, line_name = product_name pr,
                 line_price = product_price pr, line_quantity = q,
                 line_image = product_image pr\<rparr>)])"
  by (simp add: add_line_def update_absent)

lemma add_line_present:
  "map_of c (str_int p) = Some l \<Longrightarrow> py_add (line_quantity l) q = Inr q' \<Longrightarrow>
   add_line c p pr q = Inr (AList.update (str_int p) (l\<lparr>line_quantity := q'\<rparr>) c)"
  by (simp add: add_line_def)

text \<open>
  What a successful add does, on either route: the quantity is \<open>q\<close> when the request
  carries the integer \<open>q\<close> (as a JSON number, or as a form text that \<^verbatim>\<open>int\<close> reads as
  \<open>q\<close>) and 1 when it carries none.
\<close>

lemma add_effect:
  assumes "query_get (products s) p = Some pr"
    and "a = api_add_to_cart \<lparr>cp_product_id = Some p, cp_quantity = Some (PInt q)\<rparr>
         \<or> (q = 1 \<and> a = api_add_to_cart \<lparr>cp_product_id = Some p, cp_quantity = None\<rparr>)
         \<or> (\<exists>t. int_of_str t = Some q \<and> a = add_to_cart p (Some t))
         \<or> (q = 1 \<and> a = add_to_cart p None)"
    and "add_line (get_cart s) p pr (PInt q) = Inr c"
  shows "a s = (Inr (Json 200 ((json_ok (product_name pr @ '' added to cart!''))
                                  \<lparr>json_cart_count := Some (length c)\<rparr>)),
                set_cart c s)"
  using assms
  by (auto simp: api_add_to_cart_def add_to_cart_def require_def py_int_def)

lemma filter_key_distinct:
  assumes "distinct (map fst c)" and "map_of c k = Some v"
  shows "filter (\<lambda>kv. fst kv = k) c = [(k, v)]"
  using assms
proof (induction c)
  case Nil
  then show ?case by simp
next
  case (Cons a c)
  show ?case
  proof (cases "fst a = k")
    case True
    with Cons.prems have "map_of c k = None"
      by (cases a) (auto simp: map_of_eq_None_iff)
    with True Cons.prems show ?thesis
      by (cases a) (simp add: filter_key_absent)
  next
    case False
    with Cons show ?thesis
      by (cases a) auto
  qed
qed

lemma api_add_apples_stale:
  "snd (api_add_to_cart \<lparr>cp_product_id = Some 2, cp_quantity = Some (PInt 2)\<rparr> stale) =
     set_cart [(''1'', tomato_line), (''6'', shovel_line), (''2'', apple_line 2)] stale"
proof -
  have "add_line (get_cart stale) 2 apples (PInt 2) =
      Inr [(''1'', tomato_line), (''6'', shovel_line), (''2'', apple_line 2)]"
    by (simp add: add_line_def get_cart_stale str_int_2 apple_line_def apples_def)
  from add_effect [OF query_get_stale_2 _ this,
      of "api_add_to_cart \<lparr>cp_product_id = Some 2, cp_quantity = Some (PInt 2)\<rparr>"]
  show ?thesis
    by simp
qed

text \<open>
  C2. Let \<open>p\<close> be in the catalog and not yet in the cart, let \<open>a1\<close> and \<open>a2\<close> be adds of
  \<open>p\<close> with the quantities \<open>q1\<close> and \<open>q2\<close>, each on either route. Between them the
  catalog may change in any way as long as \<open>p\<close> is still found, and the session may
  hand the cart back with its keys in any order, as long as it is the same dictionary.
  Then the cart is the old dictionary with one line for \<open>p\<close>, with the quantity
  \<open>q1 + q2\<close> and the name, price and image that the product had at the first add; its
  keys are distinct, so that line is the only one for \<open>p\<close>.
\<close>

theorem add_twice:
  assumes first: "query_get (products s) p = Some pr"
    and absent: "map_of (get_cart s) (str_int p) = None"
    and a1: "a1 = api_add_to_cart \<lparr>cp_product_id = Some p, cp_quantity = Some (PInt q1)\<rparr>
         \<or> (q1 = 1 \<and> a1 = api_add_to_cart \<lparr>cp_product_id = Some p, cp_quantity = None\<rparr>)
         \<or> (\<exists>t. int_of_str t = Some q1 \<and> a1 = add_to_cart p (Some t))
         \<or> (q1 = 1 \<and> a1 = add_to_cart p None)"
    and between: "map_of (get_cart s2) = map_of (get_cart (snd (a1 s)))"
    and keys: "distinct (map fst (get_cart s2))"
    and second: "query_get (products s2) p = Some pr2"
    and a2: "a2 = api_add_to_cart \<lparr>cp_product_id = Some p, cp_quantity = Some (PInt q2)\<rparr>
         \<or> (q2 = 1 \<and> a2 = api_add_to_cart \<lparr>cp_product_id = Some p, cp_quantity = None\<rparr>)
         \<or> (\<exists>t. int_of_str t = Some q2 \<and> a2 = add_to_cart p (Some t))
         \<or> (q2 = 1 \<and> a2 = add_to_cart p None)"
  shows "map_of (get_cart (snd (a2 s2))) =
           (map_of (get_cart s))
             (str_int p \<mapsto>
               \<lparr>line_id = product_id pr, line_name = product_name pr,
                line_price = product_price pr, line_quantity = PInt (q1 + q2),
                line_image = product_image pr\<rparr>)
         \<and> distinct (map fst (get_cart (snd (a2 s2))))
         \<and> filter (\<lambda>kv. fst kv = str_int p) (get_cart (snd (a2 s2))) =
             [(str_int p,
               \<lparr>line_id = product_id pr, line_name = product_name pr,
                line_price = product_price pr, line_quantity = PInt (q1 + q2),
                line_image = product_image pr\<rparr>)]"
proof -
  let ?k = "str_int p"
  let ?snap = "\<lambda>q. \<lparr>line_id = product_id pr, line_name = product_name pr,
                line_price = product_price pr, line_quantity = q,
                line_image = product_image pr\<rparr>"
  have l1: "add_line (get_cart s) p pr (PInt q1) = Inr (get_cart s @ [(?k, ?snap (PInt q1))])"
    using absent by (rule add_line_absent)
  have s1: "snd (a1 s) = set_cart (get_cart s @ [(?k, ?snap (PInt q1))]) s"
    using add_effect [OF first a1 l1] by simp
  have c2: "map_of (get_cart s2) = (map_of (get_cart s))(?k \<mapsto> ?snap (PInt q1))"
    using absent by (auto simp: between s1 fun_eq_iff map_add_def split: option.splits)
  then have m2: "map_of (get_cart s2) ?k = Some (?snap (PInt q1))"
    by simp
  have l2: "add_line (get_cart s2) p pr2 (PInt q2) =
              Inr (AList.update ?k ((?snap (PInt q1))\<lparr>line_quantity := PInt (q1 + q2)\<rparr>)
                     (get_cart s2))"
    by (rule add_line_present [OF m2]) simp
  then have l2': "add_line (get_cart s2) p pr2 (PInt q2) =
              Inr (AList.update ?k (?snap (PInt (q1 + q2))) (get_cart s2))"
    by simp
  have "snd (a2 s2) = set_cart (AList.update ?k (?snap (PInt (q1 + q2))) (get_cart s2)) s2"
    using add_effect [OF second a2 l2'] by simp
  then have fin: "get_cart (snd (a2 s2)) = AList.update ?k (?snap (PInt (q1 + q2))) (get_cart s2)"
    by simp
  have m: "map_of (get_cart (snd (a2 s2))) = (map_of (get_cart s))(?k \<mapsto> ?snap (PInt (q1 + q2)))"
    by (simp add: fin update_conv' c2)
  have d: "distinct (map fst (get_cart (snd (a2 s2))))"
    unfolding fin by (rule distinct_update [OF keys])
  have "map_of (get_cart (snd (a2 s2))) ?k = Some (?snap (PInt (q1 + q2)))"
    by (simp add: m)
  from filter_key_distinct [OF d this] m d show ?thesis
    by simp
qed

theorem add_twice_witness:
  "query_get (products stale) 2 = Some apples \<and>
   map_of (get_cart stale) (str_int 2) = None \<and>
   map_of (get_cart reordered) =
     map_of (get_cart
       (snd (api_add_to_cart \<lparr>cp_product_id = Some 2, cp_quantity = Some (PInt 2)\<rparr> stale))) \<and>
   distinct (map fst (get_cart reordered)) \<and>
   query_get (products reordered) 2 = Some dearer_apples \<and>
   int_of_str ''3'' = Some 3 \<and>
   map_of (get_cart (snd (add_to_cart 2 (Some ''3'') reordered))) ''2'' = Some (apple_line 5) \<and>
   map_of (get_cart (snd (add_to_cart 2 (Some ''3'') reordered))) ''1'' = Some tomato_line \<and>
   filter (\<lambda>kv. fst kv = ''2'') (get_cart (snd (add_to_cart 2 (Some ''3'') reordered))) =
     [(''2'', apple_line 5)]"
proof -
  let ?a1 = "api_add_to_cart \<lparr>cp_product_id = Some 2, cp_quantity = Some (PInt 2)\<rparr>"
  let ?a2 = "add_to_cart 2 (Some ''3'')"
  have h1: "query_get (products stale) 2 = Some apples"
    by (rule query_get_stale_2)
  have h2: "map_of (get_cart stale) (str_int 2) = None"
    by (simp add: get_cart_stale str_int_2)
  have h3: "?a1 = api_add_to_cart \<lparr>cp_product_id = Some 2, cp_quantity = Some (PInt 2)\<rparr>
         \<or> ((2::int) = 1 \<and> ?a1 = api_add_to_cart \<lparr>cp_product_id = Some 2, cp_quantity = None\<rparr>)
         \<or> (\<exists>t. int_of_str t = Some 2 \<and> ?a1 = add_to_cart 2 (Some t))
         \<or> ((2::int) = 1 \<and> ?a1 = add_to_cart 2 None)"
    by simp
  have h4: "map_of (get_cart reordered) = map_of (get_cart (snd (?a1 stale)))"
    by (auto simp: api_add_apples_stale get_cart_reordered fun_eq_iff)
  have h5: "distinct (map fst (get_cart reordered))"
    by (simp add: get_cart_reordered)
  have h6: "query_get (products reordered) 2 = Some dearer_apples"
    by (simp add: reordered_def query_get_def tomatoes_def dearer_apples_def apples_def)
  have h7: "?a2 = api_add_to_cart \<lparr>cp_product_id = Some 2, cp_quantity = Some (PInt 3)\<rparr>
         \<or> ((3::int) = 1 \<and> ?a2 = api_add_to_cart \<lparr>cp_product_id = Some 2, cp_quantity = None\<rparr>)
         \<or> (\<exists>t. int_of_str t = Some 3 \<and> ?a2 = add_to_cart 2 (Some t))
         \<or> ((3::int) = 1 \<and> ?a2 = add_to_cart 2 None)"
    using int_of_str_3 by blast
  have snap: "\<lparr>line_id = product_id apples, line_name = product_name apples,
                line_price = product_price apples, line_quantity = PInt (2 + 3),
                line_image = product_image apples\<rparr> = apple_line 5"
    by (simp add: apple_line_def apples_def)
  from add_twice [OF h1 h2 h3 h4 h5 h6 h7]
  have "map_of (get_cart (snd (?a2 reordered))) =
          (map_of (get_cart stale))(str_int 2 \<mapsto> apple_line 5)"
    and "filter (\<lambda>kv. fst kv = str_int 2) (get_cart (snd (?a2 reordered))) =
          [(str_int 2, apple_line 5)]"
    unfolding snap by blast+
  then show ?thesis
    using h1 h2 h4 h5 h6 by (simp add: int_of_str_3 str_int_2 get_cart_stale)
qed

section \<open>Adding a product that is not in the catalog\<close>

text \<open>
  C5. When \<open>p\<close> is not in the catalog, an add of \<open>p\<close> fails with \<open>NotFound\<close> for every
  quantity and leaves the state, and with it the cart, as it was: on the legacy route
  (quantity absent, or a text that \<^verbatim>\<open>int\<close> reads) the exception of \<^verbatim>\<open>get_or_404\<close>
  escapes to the framework, and on the API route the handler answers with the failure
  body that carries the text of that exception, under the status 400 of its handler.
\<close>

theorem add_nonexistent:
  assumes "query_get (products s) p = None"
  shows "api_add_to_cart \<lparr>cp_product_id = Some p, cp_quantity = q\<rparr> s =
           (Inr (Json 400 (json_fail (Str_of NotFound))), s)
         \<and> add_to_cart p None s = (Inl NotFound, s)
         \<and> (\<forall>t n. int_of_str t = Some n \<longrightarrow> add_to_cart p (Some t) s = (Inl NotFound, s))"
  using assms by (simp add: api_add_to_cart_def add_to_cart_def require_def py_int_def)

theorem add_nonexistent_witness:
  "query_get (products shop) 999 = None \<and>
   api_add_to_cart \<lparr>cp_product_id = Some 999, cp_quantity = Some (PInt 2)\<rparr> shop =
     (Inr (Json 400 (json_fail (Str_of NotFound))), shop) \<and>
   add_to_cart 999 None shop = (Inl NotFound, shop) \<and>
   int_of_str ''3'' = Some 3 \<and>
   add_to_cart 999 (Some ''3'') shop = (Inl NotFound, shop)"
proof -
  have h: "query_get (products shop) 999 = None"
    by (rule query_get_shop_999)
  show ?thesis
    using h add_nonexistent [OF h, of "Some (PInt 2)"] by (simp add: int_of_str_3)
qed

section \<open>Malformed quantities\<close>

text \<open>
  C3 at a failing input. With the tomatoes (product 1) in the catalog and an empty cart,
  \<^verbatim>\<open>POST /api/cart\<close> with the quantity \<^verbatim>\<open>"abc"\<close> succeeds with status 200 and stores the
  text as the quantity of the line, and \<^verbatim>\<open>/add_to_cart/1\<close> with the form quantity
  \<^verbatim>\<open>abc\<close> lets the \<^verbatim>\<open>ValueError\<close> of \<^verbatim>\<open>int\<close> escape the handler.
\<close>

theorem add_non_numeric_quantity:
  "api_add_to_cart \<lparr>cp_product_id = Some 1, cp_quantity = Some (PStr ''abc'')\<rparr> shop =
     (Inr (Json 200 ((json_ok ''Organic Tomatoes added to cart!'')
                       \<lparr>json_cart_count := Some 1\<rparr>)),
      set_cart
        [(''1'',
          \<lparr>line_id = 1, line_name = ''Organic Tomatoes'', line_price = 3.99,
           line_quantity = PStr ''abc'',
           line_image = ''https://images.unsplash.com/photo-1546470427-e212d4d25323?w=400''\<rparr>)]
        shop)
   \<and> add_to_cart 1 (Some ''abc'') shop = (Inl ValueError, shop)"
proof -
  have p: "int_of_str ''abc'' = None"
    by code_simp
  have "add_line (get_cart shop) 1 tomatoes (PStr ''abc'') =
      Inr [(''1'',
          \<lparr>line_id = 1, line_name = ''Organic Tomatoes'', line_price = 3.99,
           line_quantity = PStr ''abc'',
           line_image = ''https://images.unsplash.com/photo-1546470427-e212d4d25323?w=400''\<rparr>)]"
    by (simp add: add_line_def get_cart_shop str_int_1 tomatoes_def)
  then show ?thesis
    using query_get_shop_1
    by (simp add: api_add_to_cart_def add_to_cart_def require_def py_int_def p tomatoes_def)
qed

section \<open>The error text of the API\<close>

lemma try_except_cases:
  assumes "try_except n s body = (Inr (Json st b), s')"
  shows "(\<exists>e. body = Inl e \<and> st = n \<and> b = json_fail (Str_of e) \<and> s' = s)
         \<or> body = Inr (Json st b, s')"
  using assms by (auto simp: try_except_def split: sum.splits prod.splits)

lemma sum_case_InrE:
  assumes "(case x of Inl e \<Rightarrow> Inl e | Inr v \<Rightarrow> f v) = Inr r"
  obtains v where "x = Inr v" and "f v = Inr r"
  using assms by (cases x) auto














section \<open>Updating a product that is not in the catalog\<close>

text \<open>
  C7. When \<open>p\<close> is not in the catalog, \<^verbatim>\<open>PUT /api/products/p\<close> fails with the
  \<open>NotFound\<close> of \<^verbatim>\<open>get_or_404\<close>: the answer is the failure body that carries the text
  of that exception, under the status 400 of the handler, and the state, and with it
  every product record, is what it was.
\<close>

theorem update_nonexistent:
  assumes "query_get (products s) p = None"
  shows "api_update_product E p d s = (Inr (Json 400 (json_fail (Str_of NotFound))), s)"
  using assms by (simp add: api_update_product_def)

theorem update_nonexistent_witness:
  "query_get (products shop) 999 = None \<and>
   api_update_product plain_env 999 new_price shop =
     (Inr (Json 400 (json_fail (Str_of NotFound))), shop)"
proof -
  have h: "query_get (products shop) 999 = None"
    by (rule query_get_shop_999)
  show ?thesis
    using h update_nonexistent [OF h, of plain_env new_price] by simp
qed

section \<open>Login failures\<close>

lemma find_distinct_email:
  assumes "distinct (map user_email us)" and "u \<in> set us"
  shows "find (\<lambda>v. user_email v = user_email u) us = Some u"
  using assms by (induction us) (auto simp: image_iff)

lemma find_no_email:
  assumes "e \<notin> user_email ` set us"
  shows "find (\<lambda>v. user_email v = e) us = None"
  using assms by (induction us) auto

text \<open>
  C9. Let the emails of the stored users be distinct, as the unique column has them.
  A valid login form with the email of a stored user and a password that the check
  rejects, and a valid form with an email of no user, both end in the same branch: the
  same flashed message \<^verbatim>\<open>Invalid email or password.\<close>, the same state afterwards, and
  the login page rendered with the form that was submitted.
\<close>

theorem login_no_enumeration:
  assumes "form_valid f1" and "form_valid f2"
    and "distinct (map user_email (users s))"
    and "u \<in> set (users s)" and "form_email f1 = user_email u"
    and "\<not> check_password_hash E (user_password u) (form_password f1)"
    and "form_email f2 \<notin> user_email ` set (users s)"
  shows "login E f1 s = (Inr (Render_login f1), flash ''Invalid email or password.'' s)
       \<and> login E f2 s = (Inr (Render_login f2), flash ''Invalid email or password.'' s)"
  using assms find_distinct_email [of "users s" u] find_no_email [of "form_email f2" "users s"]
  by (simp add: login_def)

theorem login_no_enumeration_witness:
  "login plain_env
     \<lparr>form_email = ''alice@example.com'', form_password = ''guess'', form_valid = True\<rparr> shop =
     (Inr (Render_login
        \<lparr>form_email = ''alice@example.com'', form_password = ''guess'', form_valid = True\<rparr>),
      flash ''Invalid email or password.'' shop) \<and>
   login plain_env
     \<lparr>form_email = ''bob@example.com'', form_password = ''guess'', form_valid = True\<rparr> shop =
     (Inr (Render_login
        \<lparr>form_email = ''bob@example.com'', form_password = ''guess'', form_valid = True\<rparr>),
      flash ''Invalid email or password.'' shop)"
proof -
  let ?f1 = "\<lparr>form_email = ''alice@example.com'', form_password = ''guess'', form_valid = True\<rparr>"
  let ?f2 = "\<lparr>form_email = ''bob@example.com'', form_password = ''guess'', form_valid = True\<rparr>"
  have h1: "form_valid ?f1" and h2: "form_valid ?f2"
    by simp_all
  have h3: "distinct (map user_email (users shop))"
    by (simp add: shop_def)
  have h4: "alice \<in> set (users shop)"
    by (simp add: shop_def)
  have h5: "form_email ?f1 = user_email alice"
    by (simp add: alice_def)
  have h6: "\<not> check_password_hash plain_env (user_password alice) (form_password ?f1)"
    by (simp add: plain_env_def alice_def)
  have h7: "form_email ?f2 \<notin> user_email ` set (users shop)"
    by (simp add: shop_def alice_def)
  show ?thesis
    by (rule login_no_enumeration [OF h1 h2 h3 h4 h5 h6 h7])
qed

section \<open>Listing the cart\<close>

lemma query_get_id: "query_get db i = Some p \<Longrightarrow> product_id p = i"
  by (auto simp: query_get_def find_Some_iff)

lemma py_mul_float:
  assumes "py_mul (PFloat x) q = Inr v"
  shows "v = PFloat (x * num_val q)"
  using assms by (cases q) (auto simp: num_val_def)

lemma py_add_float:
  assumes "py_add acc (PFloat y) = Inr a"
  shows "num_val a = num_val acc + y"
  using assms by (cases acc) (auto simp: num_val_def)

lemma cart_loop_spec:
  assumes "cart_loop db c its tot = Inr (its', tot')"
  shows "\<exists>new. its' = its @ new \<and>
           list_all2 item_of_line new (filter (resolves db) c) \<and>
           num_val tot' = num_val tot + sum_list (map line_value (filter (resolves db) c))"
  using assms
proof (induction db c its tot rule: cart_loop.induct)
  case (1 db cart_items tot)
  then show ?case by simp
next
  case (2 db key item rest cart_items tot)
  from "2.prems" obtain i where i: "int_of_str key = Some i"
    by (auto split: option.splits)
  show ?case
  proof (cases "query_get db i")
    case None
    then have r: "\<not> resolves db (key, item)"
      by (simp add: resolves_def i)
    from "2.prems" None i have "cart_loop db rest cart_items tot = Inr (its', tot')"
      by simp
    from "2.IH"(1) [OF i None this] r show ?thesis
      by simp
  next
    case (Some p)
    then have r: "resolves db (key, item)"
      by (simp add: resolves_def i)
    from "2.prems" Some i obtain subtotal where
      m: "py_mul (PFloat (line_price item)) (line_quantity item) = Inr subtotal"
      by (auto split: sum.splits)
    from "2.prems" Some i m obtain t2 where a: "py_add tot subtotal = Inr t2"
      by (auto split: sum.splits)
    have sub: "subtotal = PFloat (line_value (key, item))"
      using py_mul_float [OF m] by (simp add: line_value_def)
    let ?it = "\<lparr>item_id = product_id p, item_name = line_name item,
                item_price = line_price item, item_quantity = line_quantity item,
                item_subtotal = subtotal, item_image = line_image item\<rparr>"
    from "2.prems" Some i m a
    have "cart_loop db rest (cart_items @ [?it]) t2 = Inr (its', tot')"
      by simp
    from "2.IH"(2) [OF i Some m a this] obtain new where
      n: "its' = (cart_items @ [?it]) @ new"
        "list_all2 item_of_line new (filter (resolves db) rest)"
        "num_val tot' = num_val t2 + sum_list (map line_value (filter (resolves db) rest))"
      by blast
    have it: "item_of_line ?it (key, item)"
      by (simp add: item_of_line_def i query_get_id [OF Some] sub)
    have t: "num_val t2 = num_val tot + line_value (key, item)"
      using py_add_float a sub by simp
    show ?thesis
      using n it t r by (intro exI [of _ "?it # new"]) simp
  qed
qed

lemma item_resolves_aux:
  assumes "list_all2 item_of_line its ls" and "\<forall>kl \<in> set ls. resolves db kl"
  shows "\<forall>it \<in> set its. query_get db (item_id it) \<noteq> None"
  using assms
  by (induction rule: list_all2_induct) (auto simp: item_of_line_def resolves_def)

lemma item_resolves:
  assumes "list_all2 item_of_line its (filter (resolves db) c)" and "it \<in> set its"
  shows "query_get db (item_id it) \<noteq> None"
  using item_resolves_aux [OF assms(1)] assms(2) by simp

lemma api_get_cart_success:
  assumes "api_get_cart s = (Inr (Json st b), s')" and "json_success b"
  shows "\<exists>its tot. cart_loop (products s) (get_cart s) [] (PInt 0) = Inr (its, tot) \<and>
           st = 200 \<and> s' = s \<and>
           b = \<lparr>json_success = True, json_message = None, json_error = None,
                json_cart_count = Some (length (get_cart s)), json_id = None,
                json_items = Some its, json_total = Some tot\<rparr>"
  using assms
  by (auto simp: api_get_cart_def try_except_def json_fail_def split: sum.splits prod.splits)

lemma cart_loop_numeric:
  assumes "\<forall>kl \<in> set c. int_of_str (fst kl) \<noteq> None \<and> (\<forall>t. line_quantity (snd kl) \<noteq> PStr t)"
    and "\<forall>t. tot \<noteq> PStr t"
  shows "\<exists>r. cart_loop db c its tot = Inr r"
  using assms
proof (induction db c its tot rule: cart_loop.induct)
  case (1 db cart_items tot)
  then show ?case by simp
next
  case (2 db key item rest cart_items tot)
  from "2.prems" obtain i where i: "int_of_str key = Some i"
    by auto
  show ?case
  proof (cases "query_get db i")
    case None
    with "2.IH"(1) [OF i None] "2.prems" i show ?thesis
      by simp
  next
    case (Some p)
    from "2.prems" obtain y where m: "py_mul (PFloat (line_price item)) (line_quantity item) = Inr (PFloat y)"
      by (cases "line_quantity item") auto
    from "2.prems"(2) obtain t2 where a: "py_add tot (PFloat y) = Inr t2" and n: "\<forall>t. t2 \<noteq> PStr t"
      by (cases tot) auto
    from "2.IH"(2) [OF i Some m a] "2.prems" n i Some m a show ?thesis
      by simp
  qed
qed

lemma py_sum_spec:
  assumes "py_sum acc (map (\<lambda>item. py_mul (PFloat (line_price item)) (line_quantity item)) ls) = Inr t"
  shows "num_val t = num_val acc + (\<Sum>l\<leftarrow>ls. line_price l * num_val (line_quantity l))"
  using assms
proof (induction ls arbitrary: acc)
  case Nil
  then show ?case by simp
next
  case (Cons l ls)
  from Cons.prems obtain v where m: "py_mul (PFloat (line_price l)) (line_quantity l) = Inr v"
    by (cases "py_mul (PFloat (line_price l)) (line_quantity l)") auto
  have v: "v = PFloat (line_price l * num_val (line_quantity l))"
    by (rule py_mul_float [OF m])
  from Cons.prems m obtain a where a: "py_add acc v = Inr a"
    by (cases "py_add acc v") auto
  from Cons.prems m a have "py_sum a (map (\<lambda>item. py_mul (PFloat (line_price item)) (line_quantity item)) ls) = Inr t"
    by simp
  from Cons.IH [OF this] py_add_float a v show ?case
    by simp
qed

lemma view_cart_keeps: "snd (view_cart s) = s"
  by (simp add: view_cart_def Let_def split: sum.splits)

lemma api_get_cart_keeps: "snd (api_get_cart s) = s"
  by (simp add: api_get_cart_def try_except_def split: sum.splits prod.splits)

lemma add_line_distinct:
  assumes "add_line c p pr q = Inr c'" and "distinct (map fst c)"
  shows "distinct (map fst c')"
  using assms
  by (auto simp: add_line_def distinct_update split: option.splits sum.splits)

lemma add_to_cart_count:
  assumes "add_to_cart p fq s = (Inr (Json st b), s')" and "distinct (map fst (get_cart s))"
  shows "json_cart_count b = Some (length (get_cart s')) \<and> distinct (map fst (get_cart s'))"
  using assms
  by (auto simp: add_to_cart_def json_ok_def split: sum.splits dest: add_line_distinct)

lemma api_add_to_cart_returns_count:
  assumes "api_add_to_cart d s = (Inr (Json st b), s')" and "json_success b"
    and "distinct (map fst (get_cart s))"
  shows "json_cart_count b = Some (length (get_cart s')) \<and> distinct (map fst (get_cart s'))"
  using try_except_cases [OF assms(1) [unfolded api_add_to_cart_def]] assms(2,3)
  apply (elim disjE)
   apply (auto simp: json_fail_def)[1]
  apply (elim sum_case_InrE)
  apply (auto simp: json_ok_def dest: add_line_distinct)
  done

lemma api_remove_from_cart_returns_count:
  assumes "api_remove_from_cart p s = (Inr (Json st b), s')" and "json_success b"
    and "distinct (map fst (get_cart s))"
  shows "json_cart_count b = Some (length (get_cart s')) \<and> distinct (map fst (get_cart s'))"
  using try_except_cases [OF assms(1) [unfolded api_remove_from_cart_def]] assms(2,3)
  by (auto simp: json_fail_def json_ok_def Let_def distinct_delete split: option.splits)

lemma api_get_cart_returns_count:
  assumes "api_get_cart s = (Inr (Json st b), s')" and "json_success b"
    and "distinct (map fst (get_cart s))"
  shows "json_cart_count b = Some (length (get_cart s')) \<and> distinct (map fst (get_cart s'))"
  using api_get_cart_success [OF assms(1,2)] assms(3) by auto

lemma length_keys: "distinct (map fst c) \<Longrightarrow> length c = card (fst ` set c)"
  using distinct_card [of "map fst c"] by simp

lemma api_get_cart_stale:
  "api_get_cart stale = (Inr (Json 200 (cart_body [tomato_item] (PFloat 7.98) 2)), stale)"
  by (simp add: api_get_cart_def get_cart_stale products_stale int_of_str_1 int_of_str_6
      query_get_def tomatoes_def apples_def tomato_line_def shovel_line_def tomato_item_def
      cart_body_def)

lemma resolves_stale:
  "filter (resolves (products stale)) (get_cart stale) = [(''1'', tomato_line)]"
  by (simp add: get_cart_stale products_stale resolves_def int_of_str_1 int_of_str_6
      query_get_def tomatoes_def apples_def)

lemma add_to_cart_stale:
  "add_to_cart 1 (Some ''3'') stale =
     (Inr (Json 200 ((json_ok ''Organic Tomatoes added to cart!'')
                       \<lparr>json_cart_count := Some 2\<rparr>)),
      set_cart [(''1'', tomato_line\<lparr>line_quantity := PInt 5\<rparr>), (''6'', shovel_line)] stale)"
  by (simp add: add_to_cart_def py_int_def int_of_str_3 products_stale query_get_def
      tomatoes_def add_line_def get_cart_stale str_int_1 tomato_line_def)

lemma api_add_to_cart_stale:
  "api_add_to_cart \<lparr>cp_product_id = Some 2, cp_quantity = Some (PInt 4)\<rparr> stale =
     (Inr (Json 200 ((json_ok ''Fresh Apples added to cart!'')
                       \<lparr>json_cart_count := Some 3\<rparr>)),
      set_cart [(''1'', tomato_line), (''6'', shovel_line), (''2'', apple_line 4)] stale)"
  by (simp add: api_add_to_cart_def require_def products_stale query_get_def
      tomatoes_def apples_def add_line_def get_cart_stale str_int_2 apple_line_def)

lemma api_remove_from_cart_stale:
  "api_remove_from_cart 6 stale =
     (Inr (Json 200 ((json_ok ''Garden Shovel removed from cart!'')
                       \<lparr>json_cart_count := Some 1\<rparr>)),
      set_cart [(''1'', tomato_line)] stale)"
  by (simp add: api_remove_from_cart_def get_cart_stale str_int_6 shovel_line_def
      AList.delete_eq)

lemma view_cart_stale:
  "view_cart stale = (Inr (Render_cart [tomato_line, shovel_line] (PFloat 32.97)), stale)"
  by (simp add: view_cart_def get_cart_stale tomato_line_def shovel_line_def)

lemma api_get_cart_restocked:
  "api_get_cart (stale\<lparr>products := [tomatoes, apples, shovel]\<rparr>) =
     (Inr (Json 200 (cart_body [tomato_item, shovel_item] (PFloat 32.97) 2)),
      stale\<lparr>products := [tomatoes, apples, shovel]\<rparr>)"
proof -
  have "get_cart (stale\<lparr>products := [tomatoes, apples, shovel]\<rparr>) =
      [(''1'', tomato_line), (''6'', shovel_line)]"
    by (simp add: stale_def get_cart_def no_session_def)
  then show ?thesis
    by (simp add: api_get_cart_def int_of_str_1 int_of_str_6
      query_get_def tomatoes_def apples_def shovel_def tomato_line_def shovel_line_def
      tomato_item_def shovel_item_def cart_body_def)
qed

text \<open>
  Both listings answer whenever no quantity of the cart is a string and, for the API,
  every key is the text of an integer.
\<close>

lemma resolves_str_int:
  "length (str_int p) \<le> max_str_digits \<Longrightarrow>
   resolves db (str_int p, l) = (query_get db p \<noteq> None)"
  by (simp add: resolves_def int_of_str_str_int)

lemma py_sum_numeric:
  assumes "\<forall>l \<in> set ls. \<forall>t. line_quantity l \<noteq> PStr t" and "\<forall>t. acc \<noteq> PStr t"
  shows "\<exists>r. py_sum acc (map (\<lambda>item. py_mul (PFloat (line_price item)) (line_quantity item)) ls) = Inr r"
  using assms
proof (induction ls arbitrary: acc)
  case Nil
  then show ?case by simp
next
  case (Cons l ls)
  from Cons.prems obtain y where
    m: "py_mul (PFloat (line_price l)) (line_quantity l) = Inr (PFloat y)"
    by (cases "line_quantity l") auto
  from Cons.prems(2) obtain a where a: "py_add acc (PFloat y) = Inr a" and n: "\<forall>t. a \<noteq> PStr t"
    by (cases acc) auto
  from Cons.IH [OF _ n] Cons.prems(1) m a show ?case
    by simp
qed

lemma view_cart_numeric:
  assumes "\<forall>kl \<in> set (get_cart s). \<forall>t. line_quantity (snd kl) \<noteq> PStr t"
  shows "\<exists>tot. view_cart s = (Inr (Render_cart (map snd (get_cart s)) tot), s)"
proof -
  have "\<forall>l \<in> set (map snd (get_cart s)). \<forall>t. line_quantity l \<noteq> PStr t"
    using assms by auto
  from py_sum_numeric [OF this, of "PInt 0"] show ?thesis
    by (auto simp: view_cart_def Let_def)
qed

lemma api_get_cart_numeric:
  assumes "\<forall>kl \<in> set (get_cart s).
             int_of_str (fst kl) \<noteq> None \<and> (\<forall>t. line_quantity (snd kl) \<noteq> PStr t)"
  shows "\<exists>its tot. api_get_cart s = (Inr (Json 200 (cart_body its tot (length (get_cart s)))), s)"
proof -
  from cart_loop_numeric [OF assms, of "PInt 0" "products s" "[]"]
  obtain its tot where "cart_loop (products s) (get_cart s) [] (PInt 0) = Inr (its, tot)"
    by auto
  then show ?thesis
    by (auto simp: api_get_cart_def cart_body_def)
qed

text \<open>
  C4. Whenever \<^verbatim>\<open>GET /api/cart\<close> answers with its success body, the items are, in the
  order of the cart, exactly the items of the lines that resolve in the catalog, so every
  item's identifier is found in the catalog and a line that does not resolve is left out
  without an error; the total is the sum of the values of the resolving lines; and
  \<^verbatim>\<open>cart_count\<close> is the number of lines of the stored cart, the unresolvable ones
  included, which is the number of its distinct keys when the keys are distinct, as the
  keys of a dictionary are.
\<close>

theorem api_get_cart_resolvable:
  assumes "api_get_cart s = (Inr (Json st b), s')" and "json_success b"
  shows "json_cart_count b = Some (length (get_cart s)) \<and>
         (distinct (map fst (get_cart s)) \<longrightarrow>
            json_cart_count b = Some (card (fst ` set (get_cart s)))) \<and>
         (\<exists>its tot. json_items b = Some its \<and> json_total b = Some tot \<and>
            list_all2 item_of_line its (filter (resolves (products s)) (get_cart s)) \<and>
            (\<forall>it \<in> set its. query_get (products s) (item_id it) \<noteq> None) \<and>
            num_val tot = sum_list (map line_value (filter (resolves (products s)) (get_cart s))))"
proof -
  from api_get_cart_success [OF assms] obtain its tot where
    l: "cart_loop (products s) (get_cart s) [] (PInt 0) = Inr (its, tot)" and
    b: "b = \<lparr>json_success = True, json_message = None, json_error = None,
                json_cart_count = Some (length (get_cart s)), json_id = None,
                json_items = Some its, json_total = Some tot\<rparr>"
    by blast
  from cart_loop_spec [OF l] have
    i: "list_all2 item_of_line its (filter (resolves (products s)) (get_cart s))" and
    t: "num_val tot = sum_list (map line_value (filter (resolves (products s)) (get_cart s)))"
    by (auto simp: num_val_def)
  show ?thesis
    using i t item_resolves [OF i] length_keys [of "get_cart s"] by (simp add: b)
qed

theorem api_get_cart_resolvable_witness:
  "api_get_cart stale = (Inr (Json 200 (cart_body [tomato_item] (PFloat 7.98) 2)), stale) \<and>
   json_success (cart_body [tomato_item] (PFloat 7.98) 2) \<and>
   length (get_cart stale) = 2 \<and>
   distinct (map fst (get_cart stale)) \<and>
   json_cart_count (cart_body [tomato_item] (PFloat 7.98) 2) =
     Some (card (fst ` set (get_cart stale))) \<and>
   filter (resolves (products stale)) (get_cart stale) = [(''1'', tomato_line)] \<and>
   list_all2 item_of_line [tomato_item] [(''1'', tomato_line)] \<and>
   query_get (products stale) (item_id tomato_item) \<noteq> None \<and>
   num_val (PFloat 7.98) = sum_list (map line_value [(''1'', tomato_line)])"
proof -
  have h1: "api_get_cart stale =
      (Inr (Json 200 (cart_body [tomato_item] (PFloat 7.98) 2)), stale)"
    by (rule api_get_cart_stale)
  have h2: "json_success (cart_body [tomato_item] (PFloat 7.98) 2)"
    by (simp add: cart_body_def)
  have d: "distinct (map fst (get_cart stale))"
    by (simp add: get_cart_stale)
  from api_get_cart_resolvable [OF h1 h2] d have
    "json_cart_count (cart_body [tomato_item] (PFloat 7.98) 2) =
       Some (card (fst ` set (get_cart stale))) \<and>
     list_all2 item_of_line [tomato_item] [(''1'', tomato_line)] \<and>
     query_get (products stale) (item_id tomato_item) \<noteq> None \<and>
     num_val (PFloat 7.98) = sum_list (map line_value [(''1'', tomato_line)])"
    by (simp add: cart_body_def resolves_stale)
  moreover have "length (get_cart stale) = 2"
    by (simp add: get_cart_stale)
  ultimately show ?thesis
    using h1 h2 d resolves_stale by simp
qed

section \<open>The total of the cart view and the count of lines\<close>

lemma length_update_present:
  "map_of c k = Some v0 \<Longrightarrow> length (AList.update k v c) = length c"
  by (induction c) (auto split: if_splits)

lemma length_delete_present:
  assumes "distinct (map fst c)" and "map_of c k = Some v"
  shows "length (AList.delete k c) = length c - 1"
  using assms
proof (induction c)
  case Nil
  then show ?case by simp
next
  case (Cons a c)
  show ?case
  proof (cases "fst a = k")
    case True
    with Cons.prems have "k \<notin> fst ` set c"
      by (cases a) auto
    then have "AList.delete k c = c"
      by (rule AList.delete_id)
    with True show ?thesis
      by (cases a) (simp add: AList.delete_eq)
  next
    case False
    with Cons.prems have m: "map_of c k = Some v" and d: "distinct (map fst c)"
      by (cases a; auto)+
    then have "c \<noteq> []"
      by auto
    with Cons.IH [OF d m] False show ?thesis
      by (cases a) (simp add: AList.delete_eq)
  qed
qed

lemma add_present_returns:
  assumes dist: "distinct (map fst (get_cart s))"
    and found: "query_get (products s) p = Some pr"
    and line: "map_of (get_cart s) (str_int p) = Some l"
    and q0: "line_quantity l = PInt q0"
    and a: "a = api_add_to_cart \<lparr>cp_product_id = Some p, cp_quantity = Some (PInt q)\<rparr>
         \<or> (\<exists>t. int_of_str t = Some q \<and> a = add_to_cart p (Some t))"
  shows "\<exists>b s3. a s = (Inr (Json 200 b), s3) \<and> json_success b \<and>
           json_cart_count b = Some (card (fst ` set (get_cart s))) \<and>
           map_of (get_cart s3) (str_int p) = Some (l\<lparr>line_quantity := PInt (q0 + q)\<rparr>)"
proof -
  let ?c = "AList.update (str_int p) (l\<lparr>line_quantity := PInt (q0 + q)\<rparr>) (get_cart s)"
  have l2: "add_line (get_cart s) p pr (PInt q) = Inr ?c"
    by (rule add_line_present [OF line]) (simp add: q0)
  have a': "a = api_add_to_cart \<lparr>cp_product_id = Some p, cp_quantity = Some (PInt q)\<rparr>
         \<or> (q = 1 \<and> a = api_add_to_cart \<lparr>cp_product_id = Some p, cp_quantity = None\<rparr>)
         \<or> (\<exists>t. int_of_str t = Some q \<and> a = add_to_cart p (Some t))
         \<or> (q = 1 \<and> a = add_to_cart p None)"
    using a by blast
  have len: "length ?c = card (fst ` set (get_cart s))"
    using length_update_present [OF line] length_keys [OF dist] by simp
  have "map_of ?c (str_int p) = Some (l\<lparr>line_quantity := PInt (q0 + q)\<rparr>)"
    by (simp add: update_conv')
  with add_effect [OF found a' l2] len show ?thesis
    by (simp add: json_ok_def)
qed

lemma remove_present_returns:
  assumes dist: "distinct (map fst (get_cart s))"
    and line: "map_of (get_cart s) (str_int p) = Some l"
  shows "\<exists>b s3. api_remove_from_cart p s = (Inr (Json 200 b), s3) \<and> json_success b \<and>
           json_cart_count b = Some (card (fst ` set (get_cart s)) - 1) \<and>
           map_of (get_cart s3) (str_int p) = None"
proof -
  have "length (AList.delete (str_int p) (get_cart s)) = card (fst ` set (get_cart s)) - 1"
    using length_delete_present [OF dist line] length_keys [OF dist] by simp
  then show ?thesis
    using line by (simp add: api_remove_from_cart_def Let_def json_ok_def delete_conv')
qed

lemma view_cart_total:
  assumes v: "view_cart s = (Inr (Render_cart its tot), s1)"
  shows "its = map snd (get_cart s) \<and>
         num_val tot = (\<Sum>l\<leftarrow>its. line_price l * num_val (line_quantity l))"
proof (intro conjI)
  from v show i: "its = map snd (get_cart s)"
    by (auto simp: view_cart_def Let_def split: sum.splits)
  from v have "py_sum (PInt 0)
      (map (\<lambda>item. py_mul (PFloat (line_price item)) (line_quantity item)) its) = Inr tot"
    by (auto simp: view_cart_def Let_def split: sum.splits)
  from py_sum_spec [OF this]
  show "num_val tot = (\<Sum>l\<leftarrow>its. line_price l * num_val (line_quantity l))"
    by (simp add: num_val_def)
qed

lemma success_returns_count:
  assumes a: "distinct (map fst (get_cart s)) \<and>
       (r = add_to_cart p fq s \<or> r = api_add_to_cart d s \<or>
        r = api_remove_from_cart p s \<or> r = api_get_cart s) \<and>
       r = (Inr (Json st b), s2) \<and> json_success b"
  shows "json_cart_count b = Some (card (fst ` set (get_cart s2))) \<and>
         distinct (map fst (get_cart s2))"
proof (intro conjI)
  from a have dist: "distinct (map fst (get_cart s))"
    and r: "r = (Inr (Json st b), s2)" and ok: "json_success b"
    by simp_all
  have c: "json_cart_count b = Some (length (get_cart s2)) \<and> distinct (map fst (get_cart s2))"
  proof -
    from a consider
      "r = add_to_cart p fq s" | "r = api_add_to_cart d s"
      | "r = api_remove_from_cart p s" | "r = api_get_cart s"
      by blast
    then show ?thesis
    proof cases
      case 1
      with r have "add_to_cart p fq s = (Inr (Json st b), s2)" by simp
      then show ?thesis
        using dist by (rule add_to_cart_count)
    next
      case 2
      with r have "api_add_to_cart d s = (Inr (Json st b), s2)" by simp
      then show ?thesis
        using ok dist by (rule api_add_to_cart_returns_count)
    next
      case 3
      with r have "api_remove_from_cart p s = (Inr (Json st b), s2)" by simp
      then show ?thesis
        using ok dist by (rule api_remove_from_cart_returns_count)
    next
      case 4
      with r have "api_get_cart s = (Inr (Json st b), s2)" by simp
      then show ?thesis
        using ok dist by (rule api_get_cart_returns_count)
    qed
  qed
  then have d2: "distinct (map fst (get_cart s2))"
    by simp
  with c length_keys [of "get_cart s2"]
  show "json_cart_count b = Some (card (fst ` set (get_cart s2)))"
    by simp
  show "distinct (map fst (get_cart s2))"
    by (rule d2)
qed

text \<open>
  C8. Whenever the \<^verbatim>\<open>/cart\<close> view renders, it shows every line of the cart and a total
  that is the sum over the lines of price times quantity. And when the keys of the cart
  are distinct, as the keys of a dictionary are, every add, API remove and API listing
  that succeeds returns a \<^verbatim>\<open>cart_count\<close>, and it is the number of distinct keys of the
  cart afterwards; the keys stay distinct. In particular an add of \<open>q\<close> to a line that is
  in the cart with an integer quantity succeeds, raises the quantity of the line by \<open>q\<close>
  and returns the count of keys unchanged, and the API remove of a line that is in the
  cart succeeds and returns one less.
\<close>

theorem cart_total_and_count:
  "(view_cart s = (Inr (Render_cart its tot), s1) \<longrightarrow>
      its = map snd (get_cart s) \<and>
      num_val tot = (\<Sum>l\<leftarrow>its. line_price l * num_val (line_quantity l)))
   \<and> (distinct (map fst (get_cart s)) \<and>
       (r = add_to_cart p fq s \<or> r = api_add_to_cart d s \<or>
        r = api_remove_from_cart p s \<or> r = api_get_cart s) \<and>
       r = (Inr (Json st b), s2) \<and> json_success b \<longrightarrow>
      json_cart_count b = Some (card (fst ` set (get_cart s2))) \<and>
      distinct (map fst (get_cart s2)))
   \<and> (distinct (map fst (get_cart s)) \<and> query_get (products s) p = Some pr \<and>
       map_of (get_cart s) (str_int p) = Some l \<and> line_quantity l = PInt q0 \<and>
       (a = api_add_to_cart \<lparr>cp_product_id = Some p, cp_quantity = Some (PInt q)\<rparr>
        \<or> (\<exists>t. int_of_str t = Some q \<and> a = add_to_cart p (Some t))) \<longrightarrow>
      (\<exists>b3 s3. a s = (Inr (Json 200 b3), s3) \<and> json_success b3 \<and>
         json_cart_count b3 = Some (card (fst ` set (get_cart s))) \<and>
         map_of (get_cart s3) (str_int p) = Some (l\<lparr>line_quantity := PInt (q0 + q)\<rparr>)))
   \<and> (distinct (map fst (get_cart s)) \<and> map_of (get_cart s) (str_int p) = Some l \<longrightarrow>
      (\<exists>b4 s4. api_remove_from_cart p s = (Inr (Json 200 b4), s4) \<and> json_success b4 \<and>
         json_cart_count b4 = Some (card (fst ` set (get_cart s)) - 1) \<and>
         map_of (get_cart s4) (str_int p) = None))"
proof (intro conjI impI)
  assume "view_cart s = (Inr (Render_cart its tot), s1)"
  then show "its = map snd (get_cart s)"
    and "num_val tot = (\<Sum>l\<leftarrow>its. line_price l * num_val (line_quantity l))"
    using view_cart_total by blast+
next
  assume "distinct (map fst (get_cart s)) \<and>
       (r = add_to_cart p fq s \<or> r = api_add_to_cart d s \<or>
        r = api_remove_from_cart p s \<or> r = api_get_cart s) \<and>
       r = (Inr (Json st b), s2) \<and> json_success b"
  from success_returns_count [OF this]
  show "json_cart_count b = Some (card (fst ` set (get_cart s2)))"
    and "distinct (map fst (get_cart s2))"
    by blast+
next
  assume "distinct (map fst (get_cart s)) \<and> query_get (products s) p = Some pr \<and>
       map_of (get_cart s) (str_int p) = Some l \<and> line_quantity l = PInt q0 \<and>
       (a = api_add_to_cart \<lparr>cp_product_id = Some p, cp_quantity = Some (PInt q)\<rparr>
        \<or> (\<exists>t. int_of_str t = Some q \<and> a = add_to_cart p (Some t)))"
  then show "\<exists>b3 s3. a s = (Inr (Json 200 b3), s3) \<and> json_success b3 \<and>
         json_cart_count b3 = Some (card (fst ` set (get_cart s))) \<and>
         map_of (get_cart s3) (str_int p) = Some (l\<lparr>line_quantity := PInt (q0 + q)\<rparr>)"
    using add_present_returns [of s p pr l q0 a q] by blast
next
  assume "distinct (map fst (get_cart s)) \<and> map_of (get_cart s) (str_int p) = Some l"
  then show "\<exists>b4 s4. api_remove_from_cart p s = (Inr (Json 200 b4), s4) \<and> json_success b4 \<and>
         json_cart_count b4 = Some (card (fst ` set (get_cart s)) - 1) \<and>
         map_of (get_cart s4) (str_int p) = None"
    using remove_present_returns [of s p l] by blast
qed

theorem cart_total_and_count_witness:
  "view_cart stale = (Inr (Render_cart [tomato_line, shovel_line] (PFloat 32.97)), stale) \<and>
   num_val (PFloat 32.97) =
     (\<Sum>l\<leftarrow>[tomato_line, shovel_line]. line_price l * num_val (line_quantity l)) \<and>
   distinct (map fst (get_cart stale)) \<and>
   add_to_cart 1 (Some ''3'') stale =
     (Inr (Json 200 ((json_ok ''Organic Tomatoes added to cart!'')
                       \<lparr>json_cart_count := Some 2\<rparr>)),
      set_cart [(''1'', tomato_line\<lparr>line_quantity := PInt 5\<rparr>), (''6'', shovel_line)] stale) \<and>
   Some (2::nat) =
     Some (card (fst ` set (get_cart
       (set_cart [(''1'', tomato_line\<lparr>line_quantity := PInt 5\<rparr>), (''6'', shovel_line)] stale)))) \<and>
   api_add_to_cart \<lparr>cp_product_id = Some 2, cp_quantity = Some (PInt 4)\<rparr> stale =
     (Inr (Json 200 ((json_ok ''Fresh Apples added to cart!'')
                       \<lparr>json_cart_count := Some 3\<rparr>)),
      set_cart [(''1'', tomato_line), (''6'', shovel_line), (''2'', apple_line 4)] stale) \<and>
   Some (3::nat) =
     Some (card (fst ` set (get_cart
       (set_cart [(''1'', tomato_line), (''6'', shovel_line), (''2'', apple_line 4)] stale)))) \<and>
   api_remove_from_cart 6 stale =
     (Inr (Json 200 ((json_ok ''Garden Shovel removed from cart!'')
                       \<lparr>json_cart_count := Some 1\<rparr>)),
      set_cart [(''1'', tomato_line)] stale) \<and>
   Some (1::nat) = Some (card (fst ` set (get_cart (set_cart [(''1'', tomato_line)] stale)))) \<and>
   api_get_cart stale = (Inr (Json 200 (cart_body [tomato_item] (PFloat 7.98) 2)), stale) \<and>
   Some (2::nat) = Some (card (fst ` set (get_cart stale))) \<and>
   query_get (products stale) 1 = Some tomatoes \<and>
   map_of (get_cart stale) (str_int 1) = Some tomato_line \<and>
   line_quantity tomato_line = PInt 2 \<and> int_of_str ''3'' = Some 3 \<and>
   (\<exists>b3 s3. add_to_cart 1 (Some ''3'') stale = (Inr (Json 200 b3), s3) \<and> json_success b3 \<and>
      json_cart_count b3 = Some (card (fst ` set (get_cart stale))) \<and>
      map_of (get_cart s3) (str_int 1) = Some (tomato_line\<lparr>line_quantity := PInt (2 + 3)\<rparr>)) \<and>
   map_of (get_cart stale) (str_int 6) = Some shovel_line \<and>
   (\<exists>b4 s4. api_remove_from_cart 6 stale = (Inr (Json 200 b4), s4) \<and> json_success b4 \<and>
      json_cart_count b4 = Some (card (fst ` set (get_cart stale)) - 1) \<and>
      map_of (get_cart s4) (str_int 6) = None)"
proof -
  let ?d = "\<lparr>cp_product_id = Some 2, cp_quantity = Some (PInt 4)\<rparr>"
  note count = cart_total_and_count [THEN conjunct2, THEN conjunct1, THEN mp, THEN conjunct1]
  note grow = cart_total_and_count [THEN conjunct2, THEN conjunct2, THEN conjunct1, THEN mp]
  note drop = cart_total_and_count [THEN conjunct2, THEN conjunct2, THEN conjunct2, THEN mp]
  have v: "view_cart stale = (Inr (Render_cart [tomato_line, shovel_line] (PFloat 32.97)), stale)"
    by (rule view_cart_stale)
  have dist: "distinct (map fst (get_cart stale))"
    by (simp add: get_cart_stale)
  have ok: "json_success ((json_ok m)\<lparr>json_cart_count := Some n\<rparr>)" for m n
    by (simp add: json_ok_def)
  have total: "num_val (PFloat 32.97) =
       (\<Sum>l\<leftarrow>[tomato_line, shovel_line]. line_price l * num_val (line_quantity l))"
    by (rule cart_total_and_count [THEN conjunct1, THEN mp, THEN conjunct2, OF v])
  have h1: "distinct (map fst (get_cart stale)) \<and>
       (add_to_cart 1 (Some ''3'') stale = add_to_cart 1 (Some ''3'') stale \<or>
        add_to_cart 1 (Some ''3'') stale = api_add_to_cart ?d stale \<or>
        add_to_cart 1 (Some ''3'') stale = api_remove_from_cart 1 stale \<or>
        add_to_cart 1 (Some ''3'') stale = api_get_cart stale) \<and>
       add_to_cart 1 (Some ''3'') stale =
         (Inr (Json 200 ((json_ok ''Organic Tomatoes added to cart!'')
                           \<lparr>json_cart_count := Some 2\<rparr>)),
          set_cart [(''1'', tomato_line\<lparr>line_quantity := PInt 5\<rparr>), (''6'', shovel_line)] stale) \<and>
       json_success ((json_ok ''Organic Tomatoes added to cart!'')\<lparr>json_cart_count := Some 2\<rparr>)"
    by (intro conjI disjI1 refl dist add_to_cart_stale ok)
  have c1: "Some (2::nat) =
      Some (card (fst ` set (get_cart
       (set_cart [(''1'', tomato_line\<lparr>line_quantity := PInt 5\<rparr>), (''6'', shovel_line)] stale))))"
    using count [OF h1] by simp
  have h2: "distinct (map fst (get_cart stale)) \<and>
       (api_add_to_cart ?d stale = add_to_cart 1 (Some ''3'') stale \<or>
        api_add_to_cart ?d stale = api_add_to_cart ?d stale \<or>
        api_add_to_cart ?d stale = api_remove_from_cart 1 stale \<or>
        api_add_to_cart ?d stale = api_get_cart stale) \<and>
       api_add_to_cart ?d stale =
         (Inr (Json 200 ((json_ok ''Fresh Apples added to cart!'')
                           \<lparr>json_cart_count := Some 3\<rparr>)),
          set_cart [(''1'', tomato_line), (''6'', shovel_line), (''2'', apple_line 4)] stale) \<and>
       json_success ((json_ok ''Fresh Apples added to cart!'')\<lparr>json_cart_count := Some 3\<rparr>)"
    by (intro conjI disjI2 [OF disjI1] refl dist api_add_to_cart_stale ok)
  have c2: "Some (3::nat) =
      Some (card (fst ` set (get_cart
       (set_cart [(''1'', tomato_line), (''6'', shovel_line), (''2'', apple_line 4)] stale))))"
    using count [OF h2] by simp
  have h3: "distinct (map fst (get_cart stale)) \<and>
       (api_remove_from_cart 6 stale = add_to_cart 6 (Some ''3'') stale \<or>
        api_remove_from_cart 6 stale = api_add_to_cart ?d stale \<or>
        api_remove_from_cart 6 stale = api_remove_from_cart 6 stale \<or>
        api_remove_from_cart 6 stale = api_get_cart stale) \<and>
       api_remove_from_cart 6 stale =
         (Inr (Json 200 ((json_ok ''Garden Shovel removed from cart!'')
                           \<lparr>json_cart_count := Some 1\<rparr>)),
          set_cart [(''1'', tomato_line)] stale) \<and>
       json_success ((json_ok ''Garden Shovel removed from cart!'')\<lparr>json_cart_count := Some 1\<rparr>)"
    by (intro conjI disjI2 [OF disjI2, OF disjI1] refl dist api_remove_from_cart_stale ok)
  have c3: "Some (1::nat) =
      Some (card (fst ` set (get_cart (set_cart [(''1'', tomato_line)] stale))))"
    using count [OF h3] by simp
  have h4: "distinct (map fst (get_cart stale)) \<and>
       (api_get_cart stale = add_to_cart 6 (Some ''3'') stale \<or>
        api_get_cart stale = api_add_to_cart ?d stale \<or>
        api_get_cart stale = api_remove_from_cart 6 stale \<or>
        api_get_cart stale = api_get_cart stale) \<and>
       api_get_cart stale = (Inr (Json 200 (cart_body [tomato_item] (PFloat 7.98) 2)), stale) \<and>
       json_success (cart_body [tomato_item] (PFloat 7.98) 2)"
    by (intro conjI disjI2 [OF disjI2, OF disjI2] refl dist api_get_cart_stale)
       (simp add: cart_body_def)
  have c4: "Some (2::nat) = Some (card (fst ` set (get_cart stale)))"
    using count [OF h4] by (simp add: cart_body_def)
  have q1: "query_get (products stale) 1 = Some tomatoes"
    by (simp add: products_stale query_get_def tomatoes_def)
  have m1: "map_of (get_cart stale) (str_int 1) = Some tomato_line"
    by (simp add: get_cart_stale str_int_1)
  have t1: "line_quantity tomato_line = PInt 2"
    by (simp add: tomato_line_def)
  have m6: "map_of (get_cart stale) (str_int 6) = Some shovel_line"
    by (simp add: get_cart_stale str_int_6)
  have g: "distinct (map fst (get_cart stale)) \<and> query_get (products stale) 1 = Some tomatoes \<and>
       map_of (get_cart stale) (str_int 1) = Some tomato_line \<and>
       line_quantity tomato_line = PInt 2 \<and>
       (add_to_cart 1 (Some ''3'') =
          api_add_to_cart \<lparr>cp_product_id = Some 1, cp_quantity = Some (PInt 3)\<rparr>
        \<or> (\<exists>t. int_of_str t = Some 3 \<and> add_to_cart 1 (Some ''3'') = add_to_cart 1 (Some t)))"
    using dist q1 m1 t1 int_of_str_3 by blast
  have e3: "\<exists>b3 s3. add_to_cart 1 (Some ''3'') stale = (Inr (Json 200 b3), s3) \<and> json_success b3 \<and>
      json_cart_count b3 = Some (card (fst ` set (get_cart stale))) \<and>
      map_of (get_cart s3) (str_int 1) = Some (tomato_line\<lparr>line_quantity := PInt (2 + 3)\<rparr>)"
    by (rule grow [OF g])
  have e4: "\<exists>b4 s4. api_remove_from_cart 6 stale = (Inr (Json 200 b4), s4) \<and> json_success b4 \<and>
      json_cart_count b4 = Some (card (fst ` set (get_cart stale)) - 1) \<and>
      map_of (get_cart s4) (str_int 6) = None"
    by (rule drop [OF conjI [OF dist m6]])
  show ?thesis
    apply (intro conjI)
                     apply (rule v)
                    apply (rule total)
                   apply (rule dist)
                  apply (rule add_to_cart_stale)
                 apply (rule c1)
                apply (rule api_add_to_cart_stale)
               apply (rule c2)
              apply (rule api_remove_from_cart_stale)
             apply (rule c3)
            apply (rule api_get_cart_stale)
           apply (rule c4)
          apply (rule q1)
         apply (rule m1)
        apply (rule t1)
       apply (rule int_of_str_3)
      apply (rule e3)
     apply (rule m6)
    apply (rule e4)
    done
qed

section \<open>Reading the cart changes nothing\<close>

lemma list_all2_right:
  assumes "list_all2 P xs ys" and "y \<in> set ys"
  shows "\<exists>x \<in> set xs. P x y"
  using assms by (induction rule: list_all2_induct) auto

text \<open>
  C10. \<^verbatim>\<open>GET /api/cart\<close> and the \<^verbatim>\<open>/cart\<close> view return the state they were given, so
  the stored cart keeps a line that the listing left out. Hence, whatever the catalog
  becomes afterwards, once the identifier of a stored line is found there again, a
  successful listing has an item for that line.
\<close>

theorem reads_keep_cart:
  "snd (api_get_cart s) = s \<and> snd (view_cart s) = s \<and>
   ((k, l) \<in> set (get_cart s) \<and> int_of_str k = Some i \<and>
    session s2 = session (snd (api_get_cart s)) \<and> query_get (products s2) i = Some p \<and>
    api_get_cart s2 = (Inr (Json st b), s3) \<and> json_success b \<longrightarrow>
    (\<exists>its. json_items b = Some its \<and>
       (\<exists>it \<in> set its. item_id it = i \<and> item_name it = line_name l \<and>
          item_price it = line_price l \<and> item_quantity it = line_quantity l)))"
proof (intro conjI impI)
  show keep: "snd (api_get_cart s) = s"
    by (rule api_get_cart_keeps)
  show "snd (view_cart s) = s"
    by (rule view_cart_keeps)
  assume a: "(k, l) \<in> set (get_cart s) \<and> int_of_str k = Some i \<and>
    session s2 = session (snd (api_get_cart s)) \<and> query_get (products s2) i = Some p \<and>
    api_get_cart s2 = (Inr (Json st b), s3) \<and> json_success b"
  then have "session s2 = session s"
    using keep by simp
  then have c2: "get_cart s2 = get_cart s"
    by (rule get_cart_session)
  from a have g: "api_get_cart s2 = (Inr (Json st b), s3)" and ok: "json_success b"
    by simp_all
  from api_get_cart_success [OF g ok] obtain its tot where
    l: "cart_loop (products s2) (get_cart s2) [] (PInt 0) = Inr (its, tot)" and
    b: "json_items b = Some its"
    by auto
  from cart_loop_spec [OF l] have
    rel: "list_all2 item_of_line its (filter (resolves (products s2)) (get_cart s2))"
    by auto
  from a have "resolves (products s2) (k, l)"
    by (simp add: resolves_def)
  with a c2 have "(k, l) \<in> set (filter (resolves (products s2)) (get_cart s2))"
    by simp
  from list_all2_right [OF rel this] obtain it where
    "it \<in> set its" and "item_of_line it (k, l)"
    by blast
  with a b show "\<exists>its. json_items b = Some its \<and>
       (\<exists>it \<in> set its. item_id it = i \<and> item_name it = line_name l \<and>
          item_price it = line_price l \<and> item_quantity it = line_quantity l)"
    by (auto simp: item_of_line_def)
qed

theorem reads_keep_cart_witness:
  "snd (api_get_cart stale) = stale \<and> snd (view_cart stale) = stale \<and>
   (''6'', shovel_line) \<in> set (get_cart stale) \<and> int_of_str ''6'' = Some 6 \<and>
   query_get (products stale) 6 = None \<and>
   json_items (cart_body [tomato_item] (PFloat 7.98) 2) = Some [tomato_item] \<and>
   query_get (products (stale\<lparr>products := [tomatoes, apples, shovel]\<rparr>)) 6 = Some shovel \<and>
   api_get_cart (stale\<lparr>products := [tomatoes, apples, shovel]\<rparr>) =
     (Inr (Json 200 (cart_body [tomato_item, shovel_item] (PFloat 32.97) 2)),
      stale\<lparr>products := [tomatoes, apples, shovel]\<rparr>) \<and>
   item_id shovel_item = 6 \<and> item_name shovel_item = line_name shovel_line \<and>
   (\<exists>its. json_items (cart_body [tomato_item, shovel_item] (PFloat 32.97) 2) = Some its \<and>
      (\<exists>it \<in> set its. item_id it = 6 \<and> item_name it = line_name shovel_line \<and>
         item_price it = line_price shovel_line \<and>
         item_quantity it = line_quantity shovel_line))"
proof -
  let ?s2 = "stale\<lparr>products := [tomatoes, apples, shovel]\<rparr>"
  let ?b = "cart_body [tomato_item, shovel_item] (PFloat 32.97) 2"
  note t = reads_keep_cart [of stale "''6''" shovel_line 6 ?s2 shovel 200 ?b ?s2]
  have k: "snd (api_get_cart stale) = stale" and v: "snd (view_cart stale) = stale"
    using t by blast+
  have h1: "(''6'', shovel_line) \<in> set (get_cart stale)"
    by (simp add: get_cart_stale)
  have h2: "int_of_str ''6'' = Some 6"
    by (rule int_of_str_6)
  have h3: "session ?s2 = session (snd (api_get_cart stale))"
    by (simp add: k)
  have h4: "query_get (products ?s2) 6 = Some shovel"
    by (simp add: query_get_def tomatoes_def apples_def shovel_def)
  have h5: "api_get_cart ?s2 = (Inr (Json 200 ?b), ?s2)"
    by (rule api_get_cart_restocked)
  have h6: "json_success ?b"
    by (simp add: cart_body_def)
  have n: "query_get (products stale) 6 = None"
    by (simp add: products_stale query_get_def tomatoes_def apples_def)
  from t h1 h2 h3 h4 h5 h6 have
    "\<exists>its. json_items ?b = Some its \<and>
      (\<exists>it \<in> set its. item_id it = 6 \<and> item_name it = line_name shovel_line \<and>
         item_price it = line_price shovel_line \<and>
         item_quantity it = line_quantity shovel_line)"
    by blast
  then show ?thesis
    using k v h1 h2 h4 h5 n
    by (simp add: cart_body_def shovel_item_def shovel_line_def)
qed

end
